theory Spec2Isabelle
  imports Main "HOL-Library.Sublist" "HOL-Library.AList"
begin

section \<open>Strings of the host language\<close>

text \<open>
  \<^verbatim>\<open>String.prototype.includes\<close>: the needle occurs as a contiguous run of the
  haystack. The empty needle occurs in every string.
\<close>

fun str_includes :: "string \<Rightarrow> string \<Rightarrow> bool" where
  "str_includes [] needle = (needle = [])"
| "str_includes (c # cs) needle = (prefix needle (c # cs) \<or> str_includes cs needle)"

text \<open>\<^verbatim>\<open>String.prototype.startsWith\<close>.\<close>

definition startsWith :: "string \<Rightarrow> string \<Rightarrow> bool" where
  "startsWith s p = prefix p s"

text \<open>\<^verbatim>\<open>Array.prototype.join\<close> on an array of strings.\<close>

fun join :: "string \<Rightarrow> string list \<Rightarrow> string" where
  "join sep [] = []"
| "join sep [x] = x"
| "join sep (x # y # ys) = x @ sep @ join sep (y # ys)"

text \<open>
  \<^verbatim>\<open>String.prototype.replace\<close> with a string pattern: only the first occurrence
  is replaced, and the replacement text is expanded first (\<^verbatim>\<open>$$\<close>, \<^verbatim>\<open>$&\<close>,
  the text before and the text after the match). \<open>split_first\<close> finds the first
  occurrence and returns what stands before and after it.
\<close>

fun split_first :: "string \<Rightarrow> string \<Rightarrow> (string \<times> string) option" where
  "split_first pat [] = (if pat = [] then Some ([], []) else None)"
| "split_first pat (c # cs) =
     (if prefix pat (c # cs) then Some ([], drop (length pat) (c # cs))
      else (case split_first pat cs of
              None \<Rightarrow> None
            | Some (b, a) \<Rightarrow> Some (c # b, a)))"

fun get_substitution :: "string \<Rightarrow> string \<Rightarrow> string \<Rightarrow> string \<Rightarrow> string" where
  "get_substitution m b a [] = []"
| "get_substitution m b a [c] = [c]"
| "get_substitution m b a (c # d # r) =
     (if c = CHR ''$'' \<and> d = CHR ''$'' then CHR ''$'' # get_substitution m b a r
      else if c = CHR ''$'' \<and> d = CHR ''&'' then m @ get_substitution m b a r
      else if c = CHR ''$'' \<and> d = CHR 0x60 then b @ get_substitution m b a r
      else if c = CHR ''$'' \<and> d = CHR 0x27 then a @ get_substitution m b a r
      else c # get_substitution m b a (d # r))"

definition js_replace :: "string \<Rightarrow> string \<Rightarrow> string \<Rightarrow> string" where
  "js_replace s pat repl =
     (case split_first pat s of
        None \<Rightarrow> s
      | Some (b, a) \<Rightarrow> b @ get_substitution pat b a repl @ a)"

section \<open>Values and errors\<close>

text \<open>
  The values that travel through the validators: strings and arrays of strings out of the
  extractors, arbitrary decoded data out of the body, and the host objects (a URL, a
  headers store, a body stream reference) that the composite validator passes on.
\<close>

record url =
  href :: string
  protocol :: string
  hostname :: string
  pathname :: string
  search :: string

datatype jsvalue =
    JUndefined
  | JNull
  | JBool bool
  | JNum int
  | JStr string
  | JArr "jsvalue list"
  | JObj "(string \<times> jsvalue) list"
  | JObjProto jsvalue "(string \<times> jsvalue) list"
  | JURL url
  | JHeaders "string \<Rightarrow> string option"
  | JStream nat

text \<open>
  \<open>JObj props\<close> is an object as \<^verbatim>\<open>{}\<close> makes it, with its own properties in the
  order they were stored; its prototype is \<^verbatim>\<open>Object.prototype\<close>.
  \<open>JObjProto p props\<close> is such an object after its prototype has been replaced by \<open>p\<close>.
\<close>

definition is_object :: "jsvalue \<Rightarrow> bool" where
  "is_object v =
     (case v of
        JArr xs \<Rightarrow> True
      | JObj props \<Rightarrow> True
      | JObjProto p props \<Rightarrow> True
      | JURL u \<Rightarrow> True
      | JHeaders h \<Rightarrow> True
      | JStream n \<Rightarrow> True
      | _ \<Rightarrow> False)"

definition is_null :: "jsvalue \<Rightarrow> bool" where
  "is_null v = (case v of JNull \<Rightarrow> True | _ \<Rightarrow> False)"

definition is_undefined :: "jsvalue \<Rightarrow> bool" where
  "is_undefined v = (case v of JUndefined \<Rightarrow> True | _ \<Rightarrow> False)"

text \<open>
  The assignment \<^verbatim>\<open>obj[key] = v\<close> on an object made by \<^verbatim>\<open>{}\<close>. Every key but
  \<^verbatim>\<open>__proto__\<close> stores an own property. The key \<^verbatim>\<open>__proto__\<close> reaches the
  accessor that \<^verbatim>\<open>Object.prototype\<close> defines: its setter replaces the prototype
  when \<open>v\<close> is an object or \<^verbatim>\<open>null\<close> and does nothing otherwise, so no own
  property is stored. Only an object whose prototype is \<^verbatim>\<open>null\<close> has lost the
  accessor and stores \<^verbatim>\<open>__proto__\<close> like any key (the prototypes set here are
  arrays, which inherit it).
\<close>

fun js_assign :: "jsvalue \<Rightarrow> string \<Rightarrow> jsvalue \<Rightarrow> jsvalue" where
  "js_assign (JObj props) key v =
     (if key = ''__proto__''
      then (if is_object v \<or> is_null v then JObjProto v props else JObj props)
      else JObj (AList.update key v props))"
| "js_assign (JObjProto p props) key v =
     (if key = ''__proto__'' \<and> \<not> is_null p
      then (if is_object v \<or> is_null v then JObjProto v props else JObjProto p props)
      else JObjProto p (AList.update key v props))"
| "js_assign obj key v = obj"

text \<open>
  The same assignment on the own properties alone, for a value that is a string or
  \<^verbatim>\<open>undefined\<close>: the setter ignores such a value, the prototype stays, and the key
  \<^verbatim>\<open>__proto__\<close> stores nothing.
\<close>

definition assign_primitive ::
  "string \<Rightarrow> jsvalue \<Rightarrow> (string \<times> jsvalue) list \<Rightarrow> (string \<times> jsvalue) list"
where
  "assign_primitive key v props =
     (if key = ''__proto__'' then props else AList.update key v props)"

text \<open>
  The own property of an object, when it has it; and the read \<^verbatim>\<open>obj[key]\<close> for a
  key that is no property of the built-in prototypes and no index or length of an array:
  the own property, then the prototype the object was given, then \<^verbatim>\<open>undefined\<close>.
\<close>

definition js_prop :: "jsvalue \<Rightarrow> string \<Rightarrow> jsvalue option" where
  "js_prop obj key =
     (case obj of
        JObj props \<Rightarrow> map_of props key
      | JObjProto p props \<Rightarrow> map_of props key
      | _ \<Rightarrow> None)"

fun js_read :: "jsvalue \<Rightarrow> string \<Rightarrow> jsvalue" where
  "js_read (JObj props) key = (case map_of props key of Some v \<Rightarrow> v | None \<Rightarrow> JUndefined)"
| "js_read (JObjProto p props) key =
     (case map_of props key of Some v \<Rightarrow> v | None \<Rightarrow> js_read p key)"
| "js_read obj key = JUndefined"

text \<open>\<^verbatim>\<open>key in obj\<close>, for such a key: an own property, or one of the prototype.\<close>

fun js_in :: "string \<Rightarrow> jsvalue \<Rightarrow> bool" where
  "js_in key (JObj props) = (map_of props key \<noteq> None)"
| "js_in key (JObjProto p props) = (map_of props key \<noteq> None \<or> js_in key p)"
| "js_in key obj = False"

text \<open>
  A structured validation error is a list of issues; any other exception is an
  \<^verbatim>\<open>Error\<close> with its message.
\<close>

record issue =
  code :: string
  path :: "string list"
  message :: string

datatype error = Error string | ZodError "issue list"

subsection \<open>constants.ts\<close>

definition ERROR_EXPECTED_REQUEST :: string where
  "ERROR_EXPECTED_REQUEST = ''Expected Request''"

definition ERROR_EXPECTED_HEADERS :: string where
  "ERROR_EXPECTED_HEADERS = ''Expected Headers''"

definition ERROR_EXPECTED_URL_SEARCH_PARAMS :: string where
  "ERROR_EXPECTED_URL_SEARCH_PARAMS = ''Expected URLSearchParams or string''"

definition ERROR_UNABLE_TO_EXTRACT_BASE_SCHEMA :: string where
  "ERROR_UNABLE_TO_EXTRACT_BASE_SCHEMA =
     ''Unable to extract base schema from preprocessed {name} schema. '' @
     ''This may be a Zod v4 compatibility issue.''"

definition ERROR_MULTIPLE_VALUES_SINGLE_SCHEMA :: string where
  "ERROR_MULTIPLE_VALUES_SINGLE_SCHEMA =
     ''Multiple values found for parameter '' @ [CHR 0x22] @ ''{key}'' @ [CHR 0x22] @
     '' but schema expects a single value. Use an array schema '' @
     ''(e.g., z.array(z.string())) to accept multiple values.''"

section \<open>utils.ts: the value extractors\<close>

text \<open>
  What \<open>isArraySchema\<close> reads of a field rule: the \<^verbatim>\<open>type\<close> and the
  \<^verbatim>\<open>typeName\<close> of its \<^verbatim>\<open>_def\<close>, each possibly missing.
\<close>

record field_schema =
  def_type :: "string option"
  def_typeName :: "string option"

definition isArraySchema :: "field_schema option \<Rightarrow> bool" where
  "isArraySchema fieldSchema =
     (case fieldSchema of
        None \<Rightarrow> False
      | Some fs \<Rightarrow> def_type fs = Some ''array'' \<or> def_typeName fs = Some ''ZodArray'')"

text \<open>
  A shape is the object of field rules in the order \<^verbatim>\<open>for (key in shape)\<close> visits
  it; an entry may hold no rule (\<^verbatim>\<open>undefined\<close>). \<open>shape_get\<close> is \<^verbatim>\<open>shape[key]\<close>.
\<close>

type_synonym shape = "(string \<times> field_schema option) list"

definition shape_keys :: "shape \<Rightarrow> string list" where
  "shape_keys shape = map fst shape"

definition shape_get :: "shape \<Rightarrow> string \<Rightarrow> field_schema option" where
  "shape_get shape key = (case map_of shape key of Some fs \<Rightarrow> fs | None \<Rightarrow> None)"

text \<open>
  The source of the values: a \<^verbatim>\<open>URLSearchParams\<close> (its entries in order), or an
  object with a \<^verbatim>\<open>get\<close> function and perhaps a \<^verbatim>\<open>getAll\<close> function.
\<close>

datatype params =
    URLSearchParams "(string \<times> string) list"
  | ParamsLike "string \<Rightarrow> string option" "(string \<Rightarrow> string list) option"

definition usp_getAll :: "(string \<times> string) list \<Rightarrow> string \<Rightarrow> string list" where
  "usp_getAll entries key = map snd (filter (\<lambda>e. fst e = key) entries)"

text \<open>The three ways the loop body obtains \<^verbatim>\<open>allValues\<close>.\<close>

definition allValues_of :: "params \<Rightarrow> string \<Rightarrow> string list" where
  "allValues_of ps key =
     (case ps of
        URLSearchParams entries \<Rightarrow> usp_getAll entries key
      | ParamsLike get (Some getAll) \<Rightarrow> getAll key
      | ParamsLike get None \<Rightarrow> (case get key of Some v \<Rightarrow> [v] | None \<Rightarrow> []))"

definition multiple_values_error :: "string \<Rightarrow> error" where
  "multiple_values_error key =
     ZodError [\<lparr>code = ''custom'', path = [key],
                message = js_replace ERROR_MULTIPLE_VALUES_SINGLE_SCHEMA ''{key}'' key\<rparr>]"

text \<open>
  The loop of \<open>extractSearchParamsObject\<close> over the keys still to visit, with the object
  built so far, which starts as \<^verbatim>\<open>{}\<close>. A \<^verbatim>\<open>throw\<close> ends the loop with the
  error.
\<close>

fun extract_loop ::
  "params \<Rightarrow> shape \<Rightarrow> string list \<Rightarrow> jsvalue \<Rightarrow> error + jsvalue"
where
  "extract_loop ps shape [] obj = Inr obj"
| "extract_loop ps shape (key # keys) obj =
     (case shape_get shape key of
        None \<Rightarrow> extract_loop ps shape keys obj
      | Some fieldSchema \<Rightarrow>
          (let isArray = isArraySchema (Some fieldSchema);
               allValues = allValues_of ps key
           in if length allValues > 1 \<and> \<not> isArray then Inl (multiple_values_error key)
              else if isArray then
                extract_loop ps shape keys
                  (js_assign obj key
                     (if length allValues > 0 then JArr (map JStr allValues) else JUndefined))
              else
                extract_loop ps shape keys
                  (js_assign obj key
                     (if length allValues > 0 then JStr (allValues ! 0) else JUndefined))))"

definition extractSearchParamsObject :: "params \<Rightarrow> shape \<Rightarrow> error + jsvalue" where
  "extractSearchParamsObject ps shape = extract_loop ps shape (shape_keys shape) (JObj [])"

text \<open>
  \<open>extractHeadersObject\<close>: every key of the shape is looked up with \<^verbatim>\<open>get\<close>,
  which may throw; \<^verbatim>\<open>null\<close> becomes \<^verbatim>\<open>undefined\<close>. The values stored are
  strings or \<^verbatim>\<open>undefined\<close>, so the object is given by its own properties.
\<close>

fun headers_loop ::
  "(string \<Rightarrow> error + string option) \<Rightarrow> string list \<Rightarrow> (string \<times> jsvalue) list \<Rightarrow>
   error + (string \<times> jsvalue) list"
where
  "headers_loop get [] obj = Inr obj"
| "headers_loop get (key # keys) obj =
     (case get key of
        Inl e \<Rightarrow> Inl e
      | Inr found \<Rightarrow>
          headers_loop get keys
            (assign_primitive key (case found of Some v \<Rightarrow> JStr v | None \<Rightarrow> JUndefined) obj))"

definition extractHeadersObject ::
  "(string \<Rightarrow> error + string option) \<Rightarrow> shape \<Rightarrow> error + (string \<times> jsvalue) list"
where
  "extractHeadersObject get shape = headers_loop get (shape_keys shape) []"

section \<open>The validation engine, as far as the library uses it\<close>

text \<open>
  A schema of the engine is used through its \<^verbatim>\<open>parse\<close> (or \<^verbatim>\<open>parseAsync\<close>):
  a value goes in, a validated value or an error comes out. The schemas a caller declares
  are arbitrary functions of this type.
\<close>

type_synonym zschema = "jsvalue \<Rightarrow> error + jsvalue"

text \<open>
  \<^verbatim>\<open>z.literal(v)\<close> for a string \<open>v\<close> is the engine's validator that accepts the
  string \<open>v\<close> and nothing else; the issue it reports otherwise is the engine's.
\<close>

datatype zod_literal = ZodLiteral string

definition literal_parse :: "zod_literal \<Rightarrow> zschema" where
  "literal_parse l x =
     (case l of ZodLiteral v \<Rightarrow>
        (case x of
           JStr s \<Rightarrow>
             if s = v then Inr x
             else Inl (ZodError [\<lparr>code = ''invalid_value'', path = [], message = ''Invalid input''\<rparr>])
         | _ \<Rightarrow> Inl (ZodError [\<lparr>code = ''invalid_value'', path = [], message = ''Invalid input''\<rparr>])))"

section \<open>http-method.ts, protocol.ts, request-mode.ts: the closed sets\<close>

definition HTTP_METHODS :: "string list" where
  "HTTP_METHODS = [''GET'', ''POST'', ''PUT'', ''PATCH'', ''DELETE'', ''HEAD'', ''OPTIONS'']"

definition httpMethodSchema :: "string \<Rightarrow> error + zod_literal" where
  "httpMethodSchema method =
     (if method \<notin> set HTTP_METHODS
      then Inl (Error (''Invalid HTTP method: '' @ [CHR 0x22] @ method @ [CHR 0x22] @
                       ''. Must be one of: '' @ join '', '' HTTP_METHODS))
      else Inr (ZodLiteral method))"

definition PROTOCOLS :: "string list" where
  "PROTOCOLS = [''http'', ''https'']"

definition protocolSchema :: "string \<Rightarrow> error + zod_literal" where
  "protocolSchema proto =
     (if proto \<notin> set PROTOCOLS
      then Inl (Error (''Invalid protocol: '' @ [CHR 0x22] @ proto @ [CHR 0x22] @
                       ''. Must be one of: '' @ join '', '' PROTOCOLS))
      else Inr (ZodLiteral proto))"

definition REQUEST_MODES :: "string list" where
  "REQUEST_MODES = [''same-origin'', ''no-cors'', ''cors'', ''navigate'']"

definition requestModeSchema :: "string \<Rightarrow> error + zod_literal" where
  "requestModeSchema m =
     (if m \<notin> set REQUEST_MODES
      then Inl (Error (''Invalid Request mode: '' @ [CHR 0x22] @ m @ [CHR 0x22] @
                       ''. Must be one of: '' @ join '', '' REQUEST_MODES))
      else Inr (ZodLiteral m))"

section \<open>The request of the host\<close>

text \<open>
  A form-data entry is a string or a file.
\<close>

datatype form_value = FString string | FFile

text \<open>
  A request as the library sees it: the URL object the host builds from its
  \<^verbatim>\<open>url\<close>, its method, mode and headers (through \<^verbatim>\<open>get\<close>), and what each of
  its decoding capabilities answers: \<^verbatim>\<open>json()\<close>, \<^verbatim>\<open>formData()\<close>,
  \<^verbatim>\<open>text()\<close>, \<^verbatim>\<open>clone()\<close> followed by \<^verbatim>\<open>text()\<close> on the clone, and
  \<^verbatim>\<open>formData()\<close> on the request rebuilt from a clone without its content-type header.
  Each of them answers a value or throws.
\<close>

record request =
  req_url :: url
  req_method :: string
  req_mode :: string
  req_headers :: "string \<Rightarrow> string option"
  req_json :: "error + jsvalue"
  req_formData :: "error + (string \<times> form_value) list"
  req_text :: "error + string"
  req_clone_text :: "error + string"
  req_rebuilt_formData :: "error + (string \<times> form_value) list"

text \<open>
  The part of the request that changes while it is validated: the stream reference that
  \<^verbatim>\<open>request.body\<close> answers (\<open>None\<close> is \<^verbatim>\<open>null\<close>), and the decoding calls made
  so far, in order. Every decoding call reads the stream.
\<close>

datatype host_call = CallJson | CallFormData | CallText | CallCloneText | CallRebuiltFormData

record rstate =
  body_ref :: "nat option"
  calls :: "host_call list"

definition call_json :: "request \<Rightarrow> rstate \<Rightarrow> (error + jsvalue) \<times> rstate" where
  "call_json r s = (req_json r, s\<lparr>calls := calls s @ [CallJson]\<rparr>)"

definition call_formData ::
  "request \<Rightarrow> rstate \<Rightarrow> (error + (string \<times> form_value) list) \<times> rstate" where
  "call_formData r s = (req_formData r, s\<lparr>calls := calls s @ [CallFormData]\<rparr>)"

definition call_text :: "request \<Rightarrow> rstate \<Rightarrow> (error + string) \<times> rstate" where
  "call_text r s = (req_text r, s\<lparr>calls := calls s @ [CallText]\<rparr>)"

definition call_clone_text :: "request \<Rightarrow> rstate \<Rightarrow> (error + string) \<times> rstate" where
  "call_clone_text r s = (req_clone_text r, s\<lparr>calls := calls s @ [CallCloneText]\<rparr>)"

definition call_rebuilt_formData ::
  "request \<Rightarrow> rstate \<Rightarrow> (error + (string \<times> form_value) list) \<times> rstate" where
  "call_rebuilt_formData r s =
     (req_rebuilt_formData r, s\<lparr>calls := calls s @ [CallRebuiltFormData]\<rparr>)"

text \<open>
  \<^verbatim>\<open>Headers.get\<close> of the host throws a \<^verbatim>\<open>TypeError\<close> when the name is not a
  header name, that is, a non-empty string of token characters; otherwise it answers the
  value or \<^verbatim>\<open>null\<close>. The name \<^verbatim>\<open>content-type\<close>, which \<open>bodySchema\<close> looks
  up, is a header name.
\<close>

definition is_tchar :: "char \<Rightarrow> bool" where
  "is_tchar c =
     (let n = (of_char c :: nat)
      in (48 \<le> n \<and> n \<le> 57) \<or> (65 \<le> n \<and> n \<le> 90) \<or> (97 \<le> n \<and> n \<le> 122) \<or>
         n \<in> set [33, 35, 36, 37, 38, 39, 42, 43, 45, 46, 94, 95, 96, 124, 126])"

definition valid_header_name :: "string \<Rightarrow> bool" where
  "valid_header_name name = (name \<noteq> [] \<and> list_all is_tchar name)"

definition headers_get :: "(string \<Rightarrow> string option) \<Rightarrow> string \<Rightarrow> error + string option" where
  "headers_get hs name =
     (if valid_header_name name then Inr (hs name)
      else Inl (Error ''TypeError: invalid header name''))"

text \<open>What a validator is handed: a request of the host, or some other value.\<close>

datatype input = IsRequest request | NotRequest jsvalue

section \<open>body-schema.ts: the body sub-validator\<close>

text \<open>The up to three schemas \<open>bodySchema\<close> is built with.\<close>

record schemas =
  schema_json :: "zschema option"
  schema_formData :: "zschema option"
  schema_text :: "zschema option"

text \<open>
  The two loops that fill \<^verbatim>\<open>obj\<close>: from form-data entries (a file entry stores
  \<^verbatim>\<open>undefined\<close>) and from the entries of a \<^verbatim>\<open>URLSearchParams\<close>. The
  values stored are strings or \<^verbatim>\<open>undefined\<close>, so the object is given by its own
  properties.
\<close>

fun formData_loop ::
  "(string \<times> form_value) list \<Rightarrow> (string \<times> jsvalue) list \<Rightarrow> (string \<times> jsvalue) list"
where
  "formData_loop [] obj = obj"
| "formData_loop ((key, v) # es) obj =
     formData_loop es
       (assign_primitive key (case v of FString str \<Rightarrow> JStr str | FFile \<Rightarrow> JUndefined) obj)"

fun params_loop ::
  "(string \<times> string) list \<Rightarrow> (string \<times> jsvalue) list \<Rightarrow> (string \<times> jsvalue) list"
where
  "params_loop [] obj = obj"
| "params_loop ((key, v) # es) obj = params_loop es (assign_primitive key (JStr v) obj)"

text \<open>
  The structured-data branch, once its condition holds. The result is the object
  \<^verbatim>\<open>{ body: ... }\<close>.
\<close>

definition json_branch :: "zschema \<Rightarrow> request \<Rightarrow> rstate \<Rightarrow> (error + jsvalue) \<times> rstate" where
  "json_branch sch r s =
     (if body_ref s = None then (Inl (Error ''Request body is required for JSON schema''), s)
      else (case call_json r s of
              (Inl e, s1) \<Rightarrow> (Inl e, s1)
            | (Inr js, s1) \<Rightarrow>
                (case sch js of
                   Inl e \<Rightarrow> (Inl e, s1)
                 | Inr v \<Rightarrow> (Inr (JObj [(''body'', v)]), s1))))"

text \<open>
  The url-encoded part of the form branch: \<^verbatim>\<open>formData()\<close> first; when it throws,
  the clone's text parsed by \<^verbatim>\<open>new URLSearchParams\<close> (the host's parser \<open>usp\<close>);
  when that throws too, the first error is thrown again.
\<close>

definition urlencoded_decode ::
  "(string \<Rightarrow> (string \<times> string) list) \<Rightarrow> request \<Rightarrow> rstate \<Rightarrow>
   (error + (string \<times> jsvalue) list) \<times> rstate"
where
  "urlencoded_decode usp r s =
     (case call_formData r s of
        (Inr formData, s1) \<Rightarrow> (Inr (formData_loop formData []), s1)
      | (Inl formDataError, s1) \<Rightarrow>
          (case call_clone_text r s1 of
             (Inr txt, s2) \<Rightarrow> (Inr (params_loop (usp txt) []), s2)
           | (Inl textError, s2) \<Rightarrow> (Inl formDataError, s2)))"

text \<open>
  The multipart part: with a content-type that names multipart and no boundary, the
  rebuilt request is decoded first and the original request second; otherwise the
  original request is decoded directly.
\<close>

definition multipart_decode ::
  "request \<Rightarrow> rstate \<Rightarrow> (error + (string \<times> jsvalue) list) \<times> rstate"
where
  "multipart_decode r s =
     (case (if (case req_headers r ''content-type'' of
                  None \<Rightarrow> False
                | Some contentTypeHeader \<Rightarrow>
                    contentTypeHeader \<noteq> [] \<and>
                    str_includes contentTypeHeader ''multipart/form-data'' \<and>
                    \<not> str_includes contentTypeHeader ''boundary='')
            then (case call_rebuilt_formData r s of
                    (Inr formData, s1) \<Rightarrow> (Inr formData, s1)
                  | (Inl cloneError, s1) \<Rightarrow>
                      (case call_formData r s1 of
                         (Inr formData, s2) \<Rightarrow> (Inr formData, s2)
                       | (Inl originalError, s2) \<Rightarrow> (Inl originalError, s2)))
            else call_formData r s) of
        (Inl e, s1) \<Rightarrow> (Inl e, s1)
      | (Inr formData, s1) \<Rightarrow> (Inr (formData_loop formData []), s1))"

definition form_branch ::
  "(string \<Rightarrow> (string \<times> string) list) \<Rightarrow> zschema \<Rightarrow> request \<Rightarrow> string \<Rightarrow> rstate \<Rightarrow>
   (error + jsvalue) \<times> rstate"
where
  "form_branch usp sch r contentType s =
     (if body_ref s = None then (Inl (Error ''Request body is required for FormData schema''), s)
      else (case (if str_includes contentType ''application/x-www-form-urlencoded''
                  then urlencoded_decode usp r s
                  else multipart_decode r s) of
              (Inl e, s1) \<Rightarrow> (Inl e, s1)
            | (Inr obj, s1) \<Rightarrow>
                (case sch (JObj obj) of
                   Inl e \<Rightarrow> (Inl e, s1)
                 | Inr v \<Rightarrow> (Inr (JObj [(''body'', v)]), s1))))"

definition text_branch :: "zschema \<Rightarrow> request \<Rightarrow> rstate \<Rightarrow> (error + jsvalue) \<times> rstate" where
  "text_branch sch r s =
     (if body_ref s = None then (Inl (Error ''Request body is required for text schema''), s)
      else (case call_text r s of
              (Inl e, s1) \<Rightarrow> (Inl e, s1)
            | (Inr txt, s1) \<Rightarrow>
                (case sch (JStr txt) of
                   Inl e \<Rightarrow> (Inl e, s1)
                 | Inr v \<Rightarrow> (Inr (JObj [(''body'', v)]), s1))))"

definition expectedTypes :: "schemas \<Rightarrow> string list" where
  "expectedTypes sc =
     (if schema_json sc \<noteq> None then [''application/json''] else []) @
     (if schema_formData sc \<noteq> None
      then [''multipart/form-data'', ''application/x-www-form-urlencoded''] else []) @
     (if schema_text sc \<noteq> None then [''text/*''] else [])"

definition mismatch_message :: "schemas \<Rightarrow> string \<Rightarrow> string" where
  "mismatch_message sc contentType =
     ''Content-Type mismatch. Expected one of: '' @ join '', '' (expectedTypes sc) @
     '', but got: '' @ (if contentType = [] then ''(no content-type header)'' else contentType)"

text \<open>
  The function \<open>bodySchema\<close> hands to \<^verbatim>\<open>z.preprocess\<close>. Its output then passes the
  engine's \<^verbatim>\<open>z.object({ body: z.unknown().optional() })\<close>, which accepts every object
  \<^verbatim>\<open>{ body: ... }\<close> as it is.
\<close>

definition bodySchema ::
  "(string \<Rightarrow> (string \<times> string) list) \<Rightarrow> schemas \<Rightarrow> input \<Rightarrow> rstate \<Rightarrow>
   (error + jsvalue) \<times> rstate"
where
  "bodySchema usp sc val s =
     (case val of
        NotRequest other \<Rightarrow> (Inl (Error ERROR_EXPECTED_REQUEST), s)
      | IsRequest r \<Rightarrow>
          (let contentType = (case req_headers r ''content-type'' of Some c \<Rightarrow> c | None \<Rightarrow> []);
               hasAnySchema =
                 (schema_json sc \<noteq> None \<or> schema_formData sc \<noteq> None \<or> schema_text sc \<noteq> None);
               hasBody = (body_ref s \<noteq> None)
           in if schema_json sc \<noteq> None \<and> str_includes contentType ''application/json''
              then json_branch (the (schema_json sc)) r s
              else if schema_formData sc \<noteq> None \<and>
                      (str_includes contentType ''multipart/form-data'' \<or>
                       str_includes contentType ''application/x-www-form-urlencoded'')
              then form_branch usp (the (schema_formData sc)) r contentType s
              else if schema_text sc \<noteq> None \<and>
                      (startsWith contentType ''text/'' \<or> contentType = [])
              then text_branch (the (schema_text sc)) r s
              else if hasAnySchema
              then (if \<not> hasBody then (Inl (Error ''Request body is required''), s)
                    else (Inl (Error (mismatch_message sc contentType)), s))
              else (Inr (JObj [(''body'', JUndefined)]), s)))"

section \<open>request-schema.ts: the composite validator\<close>

text \<open>
  What \<open>extractBaseSchema\<close> reads of a preprocessed schema: \<^verbatim>\<open>def.out\<close>, which may
  be missing, and its \<^verbatim>\<open>shape\<close>, which may be missing too. With both there, the base
  schema is an object schema with that shape.
\<close>

record out_schema =
  out_shape :: "shape option"
  out_parseAsync :: zschema

record preprocessed_schema =
  def_out :: "out_schema option"

record base_schema =
  base_shape :: shape
  base_parseAsync :: zschema

definition extractBaseSchema :: "preprocessed_schema \<Rightarrow> base_schema option" where
  "extractBaseSchema preprocessedSchema =
     (case def_out preprocessedSchema of
        None \<Rightarrow> None
      | Some baseSchema \<Rightarrow>
          (case out_shape baseSchema of
             None \<Rightarrow> None
           | Some sh \<Rightarrow> Some \<lparr>base_shape = sh, base_parseAsync = out_parseAsync baseSchema\<rparr>))"

definition processSearchParams ::
  "(string \<Rightarrow> (string \<times> string) list) \<Rightarrow> preprocessed_schema \<Rightarrow> url \<Rightarrow> error + jsvalue"
where
  "processSearchParams usp searchParams urlObj =
     (let ps = URLSearchParams (usp (search urlObj)) in
      case extractBaseSchema searchParams of
        None \<Rightarrow>
          Inl (Error (js_replace ERROR_UNABLE_TO_EXTRACT_BASE_SCHEMA ''{name}'' ''searchParams''))
      | Some baseSchema \<Rightarrow>
          (case extractSearchParamsObject ps (base_shape baseSchema) of
             Inl e \<Rightarrow> Inl e
           | Inr obj \<Rightarrow> base_parseAsync baseSchema obj))"

definition processHeaders ::
  "preprocessed_schema \<Rightarrow> (string \<Rightarrow> string option) \<Rightarrow> error + jsvalue"
where
  "processHeaders hdrs requestHeaders =
     (case extractBaseSchema hdrs of
        None \<Rightarrow> Inl (Error (js_replace ERROR_UNABLE_TO_EXTRACT_BASE_SCHEMA ''{name}'' ''headers''))
      | Some baseSchema \<Rightarrow>
          (case extractHeadersObject (headers_get requestHeaders) (base_shape baseSchema) of
             Inl e \<Rightarrow> Inl e
           | Inr obj \<Rightarrow> base_parseAsync baseSchema (JObj obj)))"

text \<open>
  A body sub-validator is any schema of the engine run on the request; it may read the
  body, so it takes and returns the changing part of the request.
\<close>

type_synonym body_validator = "input \<Rightarrow> rstate \<Rightarrow> (error + jsvalue) \<times> rstate"

record body_result =
  parsed :: jsvalue
  bodyValue :: jsvalue
  originalBody :: jsvalue

text \<open>
  \<^verbatim>\<open>parsed.body\<close>: a property read. It throws on \<^verbatim>\<open>undefined\<close> and
  \<^verbatim>\<open>null\<close>, and answers \<^verbatim>\<open>undefined\<close> where there is no such property.
\<close>

definition prop_body :: "jsvalue \<Rightarrow> error + jsvalue" where
  "prop_body p =
     (case p of
        JUndefined \<Rightarrow> Inl (Error ''TypeError: cannot read properties of undefined'')
      | JNull \<Rightarrow> Inl (Error ''TypeError: cannot read properties of null'')
      | _ \<Rightarrow> Inr (js_read p ''body''))"

definition processBody ::
  "body_validator \<Rightarrow> request \<Rightarrow> rstate \<Rightarrow> (error + body_result) \<times> rstate"
where
  "processBody body r s =
     (let originalBody = (case body_ref s of Some h \<Rightarrow> JStream h | None \<Rightarrow> JNull) in
      case body (IsRequest r) s of
        (Inl e, s1) \<Rightarrow> (Inl e, s1)
      | (Inr p, s1) \<Rightarrow>
          (case prop_body p of
             Inl e \<Rightarrow> (Inl e, s1)
           | Inr bv \<Rightarrow> (Inr \<lparr>parsed = p, bodyValue = bv, originalBody = originalBody\<rparr>, s1)))"

definition processSimpleField :: "zschema \<Rightarrow> string \<Rightarrow> error + jsvalue" where
  "processSimpleField sch v = sch (JStr v)"

text \<open>The facets \<open>requestSchema\<close> is built with; each may be left out.\<close>

record config =
  cfg_searchParams :: "preprocessed_schema option"
  cfg_body :: "body_validator option"
  cfg_headers :: "preprocessed_schema option"
  cfg_method :: "zschema option"
  cfg_mode :: "zschema option"
  cfg_protocol :: "zschema option"
  cfg_hostname :: "zschema option"
  cfg_pathname :: "zschema option"

text \<open>\<^verbatim>\<open>schema ? await processSimpleField(schema, v) : undefined\<close>.\<close>

definition simple_field :: "zschema option \<Rightarrow> string \<Rightarrow> error + jsvalue" where
  "simple_field sch v =
     (case sch of Some f \<Rightarrow> processSimpleField f v | None \<Rightarrow> Inr JUndefined)"

text \<open>
  The steps of the function after the body: headers, then method, mode, protocol,
  hostname and pathname, then the object that is returned.
\<close>

definition after_body ::
  "config \<Rightarrow> request \<Rightarrow> url \<Rightarrow> jsvalue \<Rightarrow> body_result \<Rightarrow> error + jsvalue"
where
  "after_body cfg r urlObj searchParamsObject bodyResult =
     (case (case cfg_headers cfg of
              Some h \<Rightarrow> processHeaders h (req_headers r)
            | None \<Rightarrow> Inr JUndefined) of
        Inl e \<Rightarrow> Inl e
      | Inr headersObject \<Rightarrow>
     (let originalHeaders =
            (case cfg_headers cfg of Some h \<Rightarrow> JHeaders (req_headers r) | None \<Rightarrow> JUndefined) in
      case simple_field (cfg_method cfg) (req_method r) of
        Inl e \<Rightarrow> Inl e
      | Inr methodValue \<Rightarrow>
     (case simple_field (cfg_mode cfg) (req_mode r) of
        Inl e \<Rightarrow> Inl e
      | Inr modeValue \<Rightarrow>
     (case simple_field (cfg_protocol cfg) (js_replace (protocol urlObj) '':'' []) of
        Inl e \<Rightarrow> Inl e
      | Inr protocolValue \<Rightarrow>
     (case simple_field (cfg_hostname cfg) (hostname urlObj) of
        Inl e \<Rightarrow> Inl e
      | Inr hostnameValue \<Rightarrow>
     (case simple_field (cfg_pathname cfg) (pathname urlObj) of
        Inl e \<Rightarrow> Inl e
      | Inr pathnameValue \<Rightarrow>
          Inr (JObj [(''url'', JURL urlObj),
                     (''searchParamsObject'', searchParamsObject),
                     (''body'', originalBody bodyResult),
                     (''bodyObject'', bodyValue bodyResult),
                     (''headers'', originalHeaders),
                     (''headersObj'', headersObject),
                     (''method'', methodValue),
                     (''mode'', modeValue),
                     (''protocol'', protocolValue),
                     (''hostname'', hostnameValue),
                     (''pathname'', pathnameValue)])))))))"

text \<open>
  The function \<open>requestSchema\<close> hands to \<^verbatim>\<open>z.preprocess\<close>; \<open>req_url\<close> is
  \<^verbatim>\<open>new URL(val.url)\<close>.
\<close>

definition request_preprocess ::
  "(string \<Rightarrow> (string \<times> string) list) \<Rightarrow> config \<Rightarrow> input \<Rightarrow> rstate \<Rightarrow>
   (error + jsvalue) \<times> rstate"
where
  "request_preprocess usp cfg val s =
     (case val of
        NotRequest other \<Rightarrow> (Inl (Error ERROR_EXPECTED_REQUEST), s)
      | IsRequest r \<Rightarrow>
          (let urlObj = req_url r in
           case (case cfg_searchParams cfg of
                   Some sp \<Rightarrow> processSearchParams usp sp urlObj
                 | None \<Rightarrow> Inr JUndefined) of
             Inl e \<Rightarrow> (Inl e, s)
           | Inr searchParamsObject \<Rightarrow>
               (case (case cfg_body cfg of
                        Some b \<Rightarrow> processBody b r s
                      | None \<Rightarrow>
                          (Inr \<lparr>parsed = JUndefined, bodyValue = JUndefined,
                                originalBody = JUndefined\<rparr>, s)) of
                  (Inl e, s1) \<Rightarrow> (Inl e, s1)
                | (Inr bodyResult, s1) \<Rightarrow>
                    (after_body cfg r urlObj searchParamsObject bodyResult, s1))))"

text \<open>
  The schemas of the engine that \<open>buildResultSchema\<close> puts together.
  \<^verbatim>\<open>z.unknown()\<close>, also with \<^verbatim>\<open>.optional()\<close>, accepts every value as it is;
  \<^verbatim>\<open>z.instanceof(C)\<close> accepts the instances of \<open>C\<close> as they are, and
  \<^verbatim>\<open>.nullable()\<close> adds \<^verbatim>\<open>null\<close>.
\<close>

definition z_unknown :: zschema where
  "z_unknown x = Inr x"

definition z_unknown_optional :: zschema where
  "z_unknown_optional x = Inr x"

definition not_instance :: "string \<Rightarrow> error" where
  "not_instance cls =
     ZodError [\<lparr>code = ''custom'', path = [], message = ''Input not instance of '' @ cls\<rparr>]"

definition z_instanceof_URL :: zschema where
  "z_instanceof_URL x = (case x of JURL u \<Rightarrow> Inr x | _ \<Rightarrow> Inl (not_instance ''URL''))"

definition z_instanceof_Headers :: zschema where
  "z_instanceof_Headers x =
     (case x of JHeaders h \<Rightarrow> Inr x | _ \<Rightarrow> Inl (not_instance ''Headers''))"

definition z_instanceof_ReadableStream_nullable :: zschema where
  "z_instanceof_ReadableStream_nullable x =
     (case x of
        JStream n \<Rightarrow> Inr x
      | JNull \<Rightarrow> Inr x
      | _ \<Rightarrow> Inl (not_instance ''ReadableStream''))"

text \<open>
  \<^verbatim>\<open>z.object(fields)\<close>: the input must be an object that is no array; every field's
  schema is run on the input's property of that name. An exception thrown by a field's
  schema ends the validation; otherwise the issues of all fields, each with the field's
  name put before its path, make the error; with no issue the output is the object of the
  validated values in the order of the fields. A field whose validated value is
  \<^verbatim>\<open>undefined\<close> is in the output when its name is \<^verbatim>\<open>in\<close> the input. This
  is for fields none of which is named \<^verbatim>\<open>__proto__\<close>, as is the case for the
  fields of \<open>buildResultSchema\<close>.
\<close>

definition field_results ::
  "(string \<times> zschema) list \<Rightarrow> jsvalue \<Rightarrow> (string \<times> (error + jsvalue)) list"
where
  "field_results flds input = map (\<lambda>(key, sch). (key, sch (js_read input key))) flds"

fun first_thrown :: "(string \<times> (error + jsvalue)) list \<Rightarrow> string option" where
  "first_thrown [] = None"
| "first_thrown ((key, Inl (Error m)) # rs) = Some m"
| "first_thrown ((key, res) # rs) = first_thrown rs"

fun any_invalid :: "(string \<times> (error + jsvalue)) list \<Rightarrow> bool" where
  "any_invalid [] = False"
| "any_invalid ((key, Inl e) # rs) = True"
| "any_invalid ((key, Inr v) # rs) = any_invalid rs"

fun all_issues :: "(string \<times> (error + jsvalue)) list \<Rightarrow> issue list" where
  "all_issues [] = []"
| "all_issues ((key, Inl (ZodError issues)) # rs) =
     map (\<lambda>i. i\<lparr>path := key # path i\<rparr>) issues @ all_issues rs"
| "all_issues ((key, res) # rs) = all_issues rs"

fun field_values ::
  "jsvalue \<Rightarrow> (string \<times> (error + jsvalue)) list \<Rightarrow> (string \<times> jsvalue) list"
where
  "field_values input [] = []"
| "field_values input ((key, Inr v) # rs) =
     (if is_undefined v \<and> \<not> js_in key input then field_values input rs
      else (key, v) # field_values input rs)"
| "field_values input ((key, Inl e) # rs) = field_values input rs"

definition is_record :: "jsvalue \<Rightarrow> bool" where
  "is_record v =
     (case v of
        JObj props \<Rightarrow> True
      | JObjProto p props \<Rightarrow> True
      | JURL u \<Rightarrow> True
      | JHeaders h \<Rightarrow> True
      | JStream n \<Rightarrow> True
      | _ \<Rightarrow> False)"

definition z_object :: "(string \<times> zschema) list \<Rightarrow> zschema" where
  "z_object flds input =
     (if \<not> is_record input
      then Inl (ZodError [\<lparr>code = ''invalid_type'', path = [], message = ''Invalid input''\<rparr>])
      else (let rs = field_results flds input in
            case first_thrown rs of
              Some m \<Rightarrow> Inl (Error m)
            | None \<Rightarrow>
                if any_invalid rs then Inl (ZodError (all_issues rs))
                else Inr (JObj (field_values input rs))))"

text \<open>
  \<open>buildResultSchema\<close>: its \<^verbatim>\<open>fields\<close>, and the object schema made of them. A facet that is
  supplied brings its own schema (the base schema for search params and headers, the
  instance checks for the body stream and the headers); a facet that is left out gets
  \<^verbatim>\<open>z.unknown().optional()\<close>.
\<close>

definition result_fields :: "config \<Rightarrow> (string \<times> zschema) list" where
  "result_fields cfg =
       [(''url'', z_instanceof_URL),
        (''searchParamsObject'',
           (case cfg_searchParams cfg of
              Some sp \<Rightarrow>
                (case extractBaseSchema sp of
                   Some baseSchema \<Rightarrow> base_parseAsync baseSchema
                 | None \<Rightarrow> z_unknown)
            | None \<Rightarrow> z_unknown_optional)),
        (''body'',
           (case cfg_body cfg of
              Some b \<Rightarrow> z_instanceof_ReadableStream_nullable
            | None \<Rightarrow> z_unknown_optional)),
        (''bodyObject'',
           (case cfg_body cfg of Some b \<Rightarrow> z_unknown | None \<Rightarrow> z_unknown_optional)),
        (''headers'',
           (case cfg_headers cfg of
              Some h \<Rightarrow> z_instanceof_Headers
            | None \<Rightarrow> z_unknown_optional)),
        (''headersObj'',
           (case cfg_headers cfg of
              Some h \<Rightarrow>
                (case extractBaseSchema h of
                   Some baseSchema \<Rightarrow> base_parseAsync baseSchema
                 | None \<Rightarrow> z_unknown)
            | None \<Rightarrow> z_unknown_optional)),
        (''method'', (case cfg_method cfg of Some f \<Rightarrow> f | None \<Rightarrow> z_unknown_optional)),
        (''mode'', (case cfg_mode cfg of Some f \<Rightarrow> f | None \<Rightarrow> z_unknown_optional)),
        (''protocol'', (case cfg_protocol cfg of Some f \<Rightarrow> f | None \<Rightarrow> z_unknown_optional)),
        (''hostname'', (case cfg_hostname cfg of Some f \<Rightarrow> f | None \<Rightarrow> z_unknown_optional)),
        (''pathname'', (case cfg_pathname cfg of Some f \<Rightarrow> f | None \<Rightarrow> z_unknown_optional))]"

definition buildResultSchema :: "config \<Rightarrow> zschema" where
  "buildResultSchema cfg = z_object (result_fields cfg)"

text \<open>
  \<open>requestSchema\<close>: \<^verbatim>\<open>z.preprocess\<close> of the function above and the result schema.
  What the function returns is validated by the result schema, and the output of the
  result schema is the result of the validation.
\<close>

definition requestSchema ::
  "(string \<Rightarrow> (string \<times> string) list) \<Rightarrow> config \<Rightarrow> input \<Rightarrow> rstate \<Rightarrow>
   (error + jsvalue) \<times> rstate"
where
  "requestSchema usp cfg val s =
     (case request_preprocess usp cfg val s of
        (Inl e, s1) \<Rightarrow> (Inl e, s1)
      | (Inr out, s1) \<Rightarrow> (buildResultSchema cfg out, s1))"

section \<open>Notions used in the statements\<close>

text \<open>
  A key offends when the loop of \<open>extractSearchParamsObject\<close> throws at it: it has a
  rule that is not an array rule, and more than one value. \<open>stored_value\<close> is what the
  loop stores under a key otherwise.
\<close>

definition offending :: "params \<Rightarrow> shape \<Rightarrow> string \<Rightarrow> bool" where
  "offending ps shape key =
     (case shape_get shape key of
        None \<Rightarrow> False
      | Some fs \<Rightarrow> 1 < length (allValues_of ps key) \<and> \<not> isArraySchema (Some fs))"

definition stored_value :: "params \<Rightarrow> field_schema \<Rightarrow> string \<Rightarrow> jsvalue" where
  "stored_value ps fs key =
     (if isArraySchema (Some fs)
      then (if allValues_of ps key = [] then JUndefined else JArr (map JStr (allValues_of ps key)))
      else (case allValues_of ps key of [] \<Rightarrow> JUndefined | v # _ \<Rightarrow> JStr v))"

text \<open>
  The stream of the request has been read when \<^verbatim>\<open>json()\<close>, \<^verbatim>\<open>formData()\<close> or
  \<^verbatim>\<open>text()\<close> was called on the request.
\<close>

definition stream_read :: "rstate \<Rightarrow> bool" where
  "stream_read s =
     (CallJson \<in> set (calls s) \<or> CallFormData \<in> set (calls s) \<or> CallText \<in> set (calls s))"

text \<open>An object made by \<^verbatim>\<open>{}\<close>, whatever was assigned to it since.\<close>

definition made_by_literal :: "jsvalue \<Rightarrow> bool" where
  "made_by_literal obj =
     (case obj of JObj props \<Rightarrow> True | JObjProto p props \<Rightarrow> True | _ \<Rightarrow> False)"

text \<open>The names of the fields of a result.\<close>

definition RESULT_KEYS :: "string list" where
  "RESULT_KEYS =
     [''url'', ''searchParamsObject'', ''body'', ''bodyObject'', ''headers'', ''headersObj'',
      ''method'', ''mode'', ''protocol'', ''hostname'', ''pathname'']"

text \<open>The decoding calls made between two states.\<close>

definition new_calls :: "rstate \<Rightarrow> rstate \<Rightarrow> host_call list" where
  "new_calls s s' = drop (length (calls s)) (calls s')"

section \<open>Example inputs\<close>

definition scalar_rule :: field_schema where
  "scalar_rule = \<lparr>def_type = Some ''string'', def_typeName = None\<rparr>"

definition array_rule :: field_schema where
  "array_rule = \<lparr>def_type = Some ''array'', def_typeName = None\<rparr>"

definition dup_shape :: shape where
  "dup_shape = [(''a'', Some scalar_rule), (''b'', Some scalar_rule)]"

definition dup_params :: params where
  "dup_params = URLSearchParams [(''a'', ''1''), (''a'', ''2''), (''b'', ''3''), (''b'', ''4'')]"

definition mixed_shape :: shape where
  "mixed_shape = [(''tag'', Some array_rule), (''q'', Some scalar_rule), (''page'', Some scalar_rule)]"

definition mixed_params :: params where
  "mixed_params = URLSearchParams [(''tag'', ''x''), (''q'', ''''), (''tag'', ''y''), (''other'', ''z'')]"

definition proto_shape :: shape where
  "proto_shape = [(''__proto__'', Some scalar_rule)]"

definition proto_params :: params where
  "proto_params = URLSearchParams [(''__proto__'', '''')]"

definition q_shape :: shape where
  "q_shape = [(''q'', Some scalar_rule)]"

definition q_params :: params where
  "q_params = URLSearchParams [(''q'', '''')]"

definition get_only_params :: params where
  "get_only_params = ParamsLike (\<lambda>key. if key = ''a'' then Some ''1'' else None) None"

definition ex_url :: url where
  "ex_url = \<lparr>href = ''https://example.com/api?tag=x'', protocol = ''https:'',
             hostname = ''example.com'', pathname = ''/api'', search = ''?tag=x''\<rparr>"

definition request_with :: "string option \<Rightarrow> request" where
  "request_with ct =
     \<lparr>req_url = ex_url, req_method = ''POST'', req_mode = ''cors'',
      req_headers = (\<lambda>key. if key = ''content-type'' then ct else None),
      req_json = Inr (JNum 1),
      req_formData = Inr [(''f'', FString ''v''), (''upload'', FFile)],
      req_text = Inr ''plain'',
      req_clone_text = Inr ''a=1'',
      req_rebuilt_formData = Inr [(''g'', FString ''w'')]\<rparr>"

definition with_body :: rstate where
  "with_body = \<lparr>body_ref = Some 7, calls = []\<rparr>"

definition no_body :: rstate where
  "no_body = \<lparr>body_ref = None, calls = []\<rparr>"

definition tagging :: "string \<Rightarrow> zschema" where
  "tagging t x = Inr (JArr [JStr t, x])"

definition all_schemas :: schemas where
  "all_schemas = \<lparr>schema_json = Some (tagging ''json''), schema_formData = Some (tagging ''form''),
                   schema_text = Some (tagging ''text'')\<rparr>"

definition json_only :: schemas where
  "json_only = \<lparr>schema_json = Some (tagging ''json''), schema_formData = None, schema_text = None\<rparr>"

definition form_only :: schemas where
  "form_only = \<lparr>schema_json = None, schema_formData = Some (tagging ''form''), schema_text = None\<rparr>"

definition usp_example :: "string \<Rightarrow> (string \<times> string) list" where
  "usp_example t = (if t = ''a=1'' then [(''a'', ''1'')] else [])"

definition no_facets :: config where
  "no_facets = \<lparr>cfg_searchParams = None, cfg_body = None, cfg_headers = None, cfg_method = None,
                 cfg_mode = None, cfg_protocol = None, cfg_hostname = None, cfg_pathname = None\<rparr>"

definition tag_schema :: preprocessed_schema where
  "tag_schema =
     \<lparr>def_out = Some \<lparr>out_shape = Some [(''tag'', Some \<lparr>def_type = Some ''string'', def_typeName = None\<rparr>)],
                       out_parseAsync = (\<lambda>x. Inr x)\<rparr>\<rparr>"

definition usp_tag :: "string \<Rightarrow> (string \<times> string) list" where
  "usp_tag q = (if q = ''?tag=x'' then [(''tag'', ''x'')] else [])"

definition some_facets :: config where
  "some_facets =
     no_facets\<lparr>cfg_searchParams := Some tag_schema,
               cfg_body := Some (bodySchema usp_tag json_only),
               cfg_protocol := Some (literal_parse (ZodLiteral ''https'')),
               cfg_hostname := Some (tagging ''host'')\<rparr>"

definition some_facets_result :: jsvalue where
  "some_facets_result =
     JObj [(''url'', JURL ex_url), (''searchParamsObject'', JObj [(''tag'', JStr ''x'')]),
           (''body'', JStream 7), (''bodyObject'', JArr [JStr ''json'', JNum 1]),
           (''headers'', JUndefined), (''headersObj'', JUndefined), (''method'', JUndefined),
           (''mode'', JUndefined), (''protocol'', JStr ''https''),
           (''hostname'', JArr [JStr ''host'', JArr [JStr ''host'', JStr ''example.com'']]),
           (''pathname'', JUndefined)]"

definition body_and_method :: config where
  "body_and_method =
     no_facets\<lparr>cfg_body := Some (bodySchema usp_tag json_only),
               cfg_method := Some (literal_parse (ZodLiteral ''POST''))\<rparr>"

definition json_post_result :: jsvalue where
  "json_post_result =
     JObj [(''url'', JURL ex_url), (''searchParamsObject'', JUndefined), (''body'', JStream 7),
           (''bodyObject'', JArr [JStr ''json'', JNum 1]), (''headers'', JUndefined),
           (''headersObj'', JUndefined), (''method'', JStr ''POST''), (''mode'', JUndefined),
           (''protocol'', JUndefined), (''hostname'', JUndefined), (''pathname'', JUndefined)]"

section \<open>Facts about strings\<close>

lemma str_includes_sublist: "str_includes h n \<longleftrightarrow> sublist n h"
  by (induction h) (simp_all add: sublist_Cons_right)

lemma str_includes_appendI: "str_includes (p @ n @ s) n"
  by (simp add: str_includes_sublist)

lemma str_includes_embed: "str_includes a n \<Longrightarrow> str_includes (p @ a @ s) n"
  unfolding str_includes_sublist
  by (auto simp: sublist_def) (metis append.assoc)

lemma join_includes_member: "x \<in> set xs \<Longrightarrow> str_includes (join sep xs) x"
proof (induction sep xs rule: join.induct)
  case (1 sep)
  then show ?case by simp
next
  case (2 sep y)
  then show ?case by (simp add: str_includes_sublist)
next
  case (3 sep y z zs)
  show ?case
  proof (cases "x = y")
    case True
    then show ?thesis using str_includes_appendI [of "[]" y "sep @ join sep (z # zs)"] by simp
  next
    case False
    with 3 have "str_includes (join sep (z # zs)) x" by simp
    from str_includes_embed [OF this, of "y @ sep" "[]"] show ?thesis by simp
  qed
qed

section \<open>The extraction loop\<close>

lemma js_assign_made_by_literal:
  "made_by_literal obj \<Longrightarrow> made_by_literal (js_assign obj key v)"
  by (cases obj) (simp_all add: made_by_literal_def)

lemma js_prop_js_assign:
  "made_by_literal obj \<Longrightarrow> k \<noteq> ''__proto__'' \<Longrightarrow>
   js_prop (js_assign obj key v) k = (if k = key then Some v else js_prop obj k)"
  by (cases obj) (auto simp: made_by_literal_def js_prop_def update_conv')

lemma extract_loop_fail:
  "find (offending ps shape) keys = Some k \<Longrightarrow>
   extract_loop ps shape keys obj = Inl (multiple_values_error k)"
proof (induction keys arbitrary: obj)
  case Nil
  then show ?case by simp
next
  case (Cons key keys)
  show ?case
  proof (cases "offending ps shape key")
    case True
    with Cons.prems have "k = key" by simp
    with True show ?thesis
      by (auto simp: offending_def Let_def split: option.splits)
  next
    case False
    with Cons.prems have "find (offending ps shape) keys = Some k" by simp
    from Cons.IH [OF this] False show ?thesis
      by (auto simp: offending_def Let_def split: option.splits)
  qed
qed

lemma extract_loop_lookup:
  "made_by_literal obj \<Longrightarrow> k \<noteq> ''__proto__'' \<Longrightarrow>
   extract_loop ps shape keys obj = Inr obj' \<Longrightarrow>
   js_prop obj' k =
     (if k \<in> set keys \<and> shape_get shape k \<noteq> None
      then Some (stored_value ps (the (shape_get shape k)) k)
      else js_prop obj k)"
proof (induction keys arbitrary: obj)
  case Nil
  then show ?case by simp
next
  case (Cons key keys)
  show ?case
  proof (cases "shape_get shape key")
    case None
    with Cons.prems have "extract_loop ps shape keys obj = Inr obj'" by simp
    from Cons.IH [OF Cons.prems(1,2) this] None show ?thesis by auto
  next
    case (Some fs)
    let ?v = "stored_value ps fs key"
    from Cons.prems Some have run: "extract_loop ps shape keys (js_assign obj key ?v) = Inr obj'"
      by (auto simp: Let_def stored_value_def hd_conv_nth split: if_splits list.splits)
    from Cons.prems(1) have lit: "made_by_literal (js_assign obj key ?v)"
      by (rule js_assign_made_by_literal)
    from Cons.IH [OF lit Cons.prems(2) run] Some Cons.prems(1,2) show ?thesis
      by (auto simp: js_prop_js_assign)
  qed
qed

lemma extract_loop_ok:
  "find (offending ps shape) keys = None \<Longrightarrow> \<exists>obj'. extract_loop ps shape keys obj = Inr obj'"
proof (induction keys arbitrary: obj)
  case Nil
  then show ?case by simp
next
  case (Cons key keys)
  then have no: "\<not> offending ps shape key" and rest: "find (offending ps shape) keys = None"
    by (auto split: if_splits)
  show ?case
  proof (cases "shape_get shape key")
    case None
    with Cons.IH [OF rest] show ?thesis by simp
  next
    case (Some fs)
    with no Cons.IH [OF rest] show ?thesis
      by (auto simp: offending_def Let_def)
  qed
qed

lemmas extract_defs =
  extractSearchParamsObject_def shape_keys_def shape_get_def allValues_of_def usp_getAll_def
  isArraySchema_def multiple_values_error_def is_object_def is_null_def

section \<open>The cardinality law of the multi-valued extraction\<close>

text \<open>
  C1, as stated, at two keys that both offend: the shape declares \<open>a\<close> and \<open>b\<close> with
  scalar rules and the source holds two values for each. The key \<open>b\<close> is declared, its
  rule is scalar and it has more than one value, yet the error that is thrown has the
  path \<open>[a]\<close>, not \<open>[b]\<close>: the loop throws at the first key that offends and never
  visits \<open>b\<close>.
\<close>

theorem cardinality_path_counterexample:
  "''b'' \<in> set (shape_keys dup_shape) \<and>
   shape_get dup_shape ''b'' = Some scalar_rule \<and>
   \<not> isArraySchema (Some scalar_rule) \<and>
   allValues_of dup_params ''b'' = [''3'', ''4''] \<and>
   extractSearchParamsObject dup_params dup_shape =
     Inl (ZodError [\<lparr>code = ''custom'', path = [''a''],
                     message = js_replace ERROR_MULTIPLE_VALUES_SINGLE_SCHEMA ''{key}'' ''a''\<rparr>]) \<and>
   extractSearchParamsObject dup_params dup_shape \<noteq> Inl (multiple_values_error ''b'')"
  by (simp add: extract_defs scalar_rule_def dup_shape_def dup_params_def)

text \<open>
  C1, amended. With more than one value for a declared key under a scalar rule, the
  extraction fails with a structured error whose path is \<open>[k']\<close> for the first declared
  key \<open>k'\<close> that offends (the key itself when no earlier key offends). For every declared
  key \<open>k\<close> other than \<^verbatim>\<open>__proto__\<close>, a successful extraction stores, under a scalar
  rule, \<^verbatim>\<open>undefined\<close> for no value and the value for one value, and under an array
  rule \<^verbatim>\<open>undefined\<close> for no value, a one-element array for one value and the array
  of all values, in the order the source answers them, for more. The extraction succeeds
  when no declared key offends. What is stored for the key \<^verbatim>\<open>__proto__\<close> is left
  out of the statement.
\<close>

theorem extractSearchParamsObject_cardinality:
  assumes "k \<in> set (shape_keys shape)" and "shape_get shape k = Some fs"
  shows
    "(\<not> isArraySchema (Some fs) \<longrightarrow>
        (k \<noteq> ''__proto__'' \<longrightarrow>
           (\<forall>obj. extractSearchParamsObject ps shape = Inr obj \<longrightarrow>
              (allValues_of ps k = [] \<longrightarrow> js_prop obj k = Some JUndefined) \<and>
              (\<forall>v. allValues_of ps k = [v] \<longrightarrow> js_prop obj k = Some (JStr v)))) \<and>
        (1 < length (allValues_of ps k) \<longrightarrow>
           (\<exists>k'. find (offending ps shape) (shape_keys shape) = Some k' \<and>
                 extractSearchParamsObject ps shape =
                   Inl (ZodError [\<lparr>code = ''custom'', path = [k'],
                                   message = js_replace ERROR_MULTIPLE_VALUES_SINGLE_SCHEMA ''{key}'' k'\<rparr>])))) \<and>
     (isArraySchema (Some fs) \<longrightarrow> k \<noteq> ''__proto__'' \<longrightarrow>
        (\<forall>obj. extractSearchParamsObject ps shape = Inr obj \<longrightarrow>
           (allValues_of ps k = [] \<longrightarrow> js_prop obj k = Some JUndefined) \<and>
           (\<forall>v. allValues_of ps k = [v] \<longrightarrow> js_prop obj k = Some (JArr [JStr v])) \<and>
           (1 < length (allValues_of ps k) \<longrightarrow>
              js_prop obj k = Some (JArr (map JStr (allValues_of ps k)))))) \<and>
     (find (offending ps shape) (shape_keys shape) = None \<longrightarrow>
        (\<exists>obj. extractSearchParamsObject ps shape = Inr obj))"
proof -
  have val: "js_prop obj k = Some (stored_value ps fs k)"
    if "extractSearchParamsObject ps shape = Inr obj" "k \<noteq> ''__proto__''" for obj
    using extract_loop_lookup [of "JObj []" k ps shape "shape_keys shape" obj] that assms
    by (simp add: extractSearchParamsObject_def made_by_literal_def)
  have fails: "\<exists>k'. find (offending ps shape) (shape_keys shape) = Some k' \<and>
                 extractSearchParamsObject ps shape =
                   Inl (ZodError [\<lparr>code = ''custom'', path = [k'],
                                   message = js_replace ERROR_MULTIPLE_VALUES_SINGLE_SCHEMA ''{key}'' k'\<rparr>])"
    if "\<not> isArraySchema (Some fs)" "1 < length (allValues_of ps k)"
  proof -
    from that assms have "offending ps shape k" by (simp add: offending_def)
    with assms(1) have "find (offending ps shape) (shape_keys shape) \<noteq> None"
      by (auto simp: find_None_iff)
    then obtain k' where f: "find (offending ps shape) (shape_keys shape) = Some k'" by auto
    from extract_loop_fail [OF f] f show ?thesis
      by (auto simp: extractSearchParamsObject_def multiple_values_error_def)
  qed
  have succeeds: "\<exists>obj. extractSearchParamsObject ps shape = Inr obj"
    if "find (offending ps shape) (shape_keys shape) = None"
    using extract_loop_ok [OF that] by (simp add: extractSearchParamsObject_def)
  show ?thesis
    by (intro conjI impI allI) (auto simp add: val stored_value_def fails succeeds)
qed

theorem extractSearchParamsObject_cardinality_witness:
  "extractSearchParamsObject mixed_params mixed_shape =
     Inr (JObj [(''tag'', JArr [JStr ''x'', JStr ''y'']), (''q'', JStr ''''), (''page'', JUndefined)]) \<and>
   js_prop (JObj [(''tag'', JArr [JStr ''x'', JStr ''y'']), (''q'', JStr ''''), (''page'', JUndefined)])
     ''tag'' = Some (JArr (map JStr (allValues_of mixed_params ''tag''))) \<and>
   find (offending dup_params dup_shape) (shape_keys dup_shape) = Some ''a'' \<and>
   extractSearchParamsObject dup_params dup_shape =
     Inl (ZodError [\<lparr>code = ''custom'', path = [''a''],
                     message = js_replace ERROR_MULTIPLE_VALUES_SINGLE_SCHEMA ''{key}'' ''a''\<rparr>])"
  using extractSearchParamsObject_cardinality [of "''tag''" mixed_shape array_rule mixed_params]
    extractSearchParamsObject_cardinality [of "''a''" dup_shape scalar_rule dup_params]
  by (simp add: extract_defs offending_def scalar_rule_def array_rule_def dup_shape_def
      dup_params_def mixed_shape_def mixed_params_def js_prop_def)

text \<open>
  C9, at the declared key \<^verbatim>\<open>__proto__\<close>: its rule is scalar and the source holds
  exactly one value for it, the empty string. The loop assigns the empty string under that
  key as it does under every key, but on an object made by \<^verbatim>\<open>{}\<close> this assignment
  reaches the setter of the prototype, which ignores a string: the extraction returns an
  object without the property, so the empty string has become absence. Under the key
  \<open>q\<close> the same source and rule give the empty string.
\<close>

theorem proto_key_empty_string_is_dropped:
  "''__proto__'' \<in> set (shape_keys proto_shape) \<and>
   shape_get proto_shape ''__proto__'' = Some scalar_rule \<and>
   \<not> isArraySchema (Some scalar_rule) \<and>
   allValues_of proto_params ''__proto__'' = [''''] \<and>
   extractSearchParamsObject proto_params proto_shape = Inr (JObj []) \<and>
   js_prop (JObj []) ''__proto__'' = None \<and>
   allValues_of q_params ''q'' = [''''] \<and>
   extractSearchParamsObject q_params q_shape = Inr (JObj [(''q'', JStr '''')]) \<and>
   js_prop (JObj [(''q'', JStr '''')]) ''q'' = Some (JStr '''')"
  by (simp add: extract_defs scalar_rule_def proto_shape_def proto_params_def q_shape_def
      q_params_def js_prop_def)

text \<open>
  C10. A source with \<^verbatim>\<open>get\<close> and no \<^verbatim>\<open>getAll\<close> gives the loop at most one value
  for a key (one when \<^verbatim>\<open>get\<close> answers a string, none when it answers \<^verbatim>\<open>null\<close>),
  so no key offends and the extraction succeeds, whatever the shape.
\<close>

theorem get_only_source_never_fails:
  "allValues_of (ParamsLike get None) key = (case get key of Some v \<Rightarrow> [v] | None \<Rightarrow> []) \<and>
   length (allValues_of (ParamsLike get None) key) \<le> 1 \<and>
   \<not> offending (ParamsLike get None) shape key \<and>
   (\<exists>obj. extractSearchParamsObject (ParamsLike get None) shape = Inr obj)"
proof -
  have one: "length (allValues_of (ParamsLike get None) k) \<le> 1" for k
    by (simp add: allValues_of_def split: option.splits)
  then have no: "\<not> offending (ParamsLike get None) shape k" for k
    by (auto simp: offending_def not_less split: option.splits)
  then have "find (offending (ParamsLike get None) shape) (shape_keys shape) = None"
    by (simp add: find_None_iff)
  from extract_loop_ok [OF this] one no show ?thesis
    by (simp add: extractSearchParamsObject_def allValues_of_def)
qed

theorem get_only_source_never_fails_witness:
  "allValues_of get_only_params ''a'' = [''1''] \<and>
   allValues_of get_only_params ''b'' = [] \<and>
   extractSearchParamsObject get_only_params dup_shape =
     Inr (JObj [(''a'', JStr ''1''), (''b'', JUndefined)])"
  using get_only_source_never_fails
    [of "\<lambda>key. if key = ''a'' then Some ''1'' else None" "''a''" dup_shape]
  by (simp add: extract_defs offending_def scalar_rule_def dup_shape_def get_only_params_def)

section \<open>The exact-literal builders\<close>

lemma literal_parse_exact:
  "(\<exists>y. literal_parse (ZodLiteral v) x = Inr y) \<longleftrightarrow> x = JStr v"
  by (cases x) (simp_all add: literal_parse_def)

text \<open>
  C8. Each of the three builders checks its argument when the schema is built: outside the
  closed set it throws an \<^verbatim>\<open>Error\<close> whose message names the argument and lists every
  member of the set; inside the set it returns the literal validator of the argument,
  which accepts the argument and no other value.
\<close>

theorem literal_builders_validate_eagerly:
  "(m \<notin> set HTTP_METHODS \<longrightarrow>
      (\<exists>msg. httpMethodSchema m = Inl (Error msg) \<and>
         msg = ''Invalid HTTP method: '' @ [CHR 0x22] @ m @ [CHR 0x22] @
               ''. Must be one of: GET, POST, PUT, PATCH, DELETE, HEAD, OPTIONS'' \<and>
         (\<forall>v \<in> set HTTP_METHODS. str_includes msg v))) \<and>
   (m \<in> set HTTP_METHODS \<longrightarrow>
      httpMethodSchema m = Inr (ZodLiteral m) \<and>
      (\<forall>x. (\<exists>y. literal_parse (ZodLiteral m) x = Inr y) \<longleftrightarrow> x = JStr m)) \<and>
   (m \<notin> set PROTOCOLS \<longrightarrow>
      (\<exists>msg. protocolSchema m = Inl (Error msg) \<and>
         msg = ''Invalid protocol: '' @ [CHR 0x22] @ m @ [CHR 0x22] @
               ''. Must be one of: http, https'' \<and>
         (\<forall>v \<in> set PROTOCOLS. str_includes msg v))) \<and>
   (m \<in> set PROTOCOLS \<longrightarrow>
      protocolSchema m = Inr (ZodLiteral m) \<and>
      (\<forall>x. (\<exists>y. literal_parse (ZodLiteral m) x = Inr y) \<longleftrightarrow> x = JStr m)) \<and>
   (m \<notin> set REQUEST_MODES \<longrightarrow>
      (\<exists>msg. requestModeSchema m = Inl (Error msg) \<and>
         msg = ''Invalid Request mode: '' @ [CHR 0x22] @ m @ [CHR 0x22] @
               ''. Must be one of: same-origin, no-cors, cors, navigate'' \<and>
         (\<forall>v \<in> set REQUEST_MODES. str_includes msg v))) \<and>
   (m \<in> set REQUEST_MODES \<longrightarrow>
      requestModeSchema m = Inr (ZodLiteral m) \<and>
      (\<forall>x. (\<exists>y. literal_parse (ZodLiteral m) x = Inr y) \<longleftrightarrow> x = JStr m))"
proof -
  have listed: "\<forall>v \<in> set xs. str_includes (p @ [CHR 0x22] @ m @ [CHR 0x22] @ q @ join '', '' xs) v"
    for p q :: string and xs
  proof
    fix v assume "v \<in> set xs"
    then have "str_includes (join '', '' xs) v" by (rule join_includes_member)
    from str_includes_embed [OF this, of "p @ [CHR 0x22] @ m @ [CHR 0x22] @ q" "[]"]
    show "str_includes (p @ [CHR 0x22] @ m @ [CHR 0x22] @ q @ join '', '' xs) v" by simp
  qed
  have jm: "join '', '' HTTP_METHODS = ''GET, POST, PUT, PATCH, DELETE, HEAD, OPTIONS''"
    by (simp add: HTTP_METHODS_def)
  have jp: "join '', '' PROTOCOLS = ''http, https''"
    by (simp add: PROTOCOLS_def)
  have jr: "join '', '' REQUEST_MODES = ''same-origin, no-cors, cors, navigate''"
    by (simp add: REQUEST_MODES_def)
  have a: "m \<notin> set HTTP_METHODS \<longrightarrow>
      (\<exists>msg. httpMethodSchema m = Inl (Error msg) \<and>
         msg = ''Invalid HTTP method: '' @ [CHR 0x22] @ m @ [CHR 0x22] @
               ''. Must be one of: GET, POST, PUT, PATCH, DELETE, HEAD, OPTIONS'' \<and>
         (\<forall>v \<in> set HTTP_METHODS. str_includes msg v))"
    using listed [where p = "''Invalid HTTP method: ''" and q = "''. Must be one of: ''" and xs = HTTP_METHODS]
    unfolding jm by (simp add: httpMethodSchema_def jm)
  have b: "m \<notin> set PROTOCOLS \<longrightarrow>
      (\<exists>msg. protocolSchema m = Inl (Error msg) \<and>
         msg = ''Invalid protocol: '' @ [CHR 0x22] @ m @ [CHR 0x22] @
               ''. Must be one of: http, https'' \<and>
         (\<forall>v \<in> set PROTOCOLS. str_includes msg v))"
    using listed [where p = "''Invalid protocol: ''" and q = "''. Must be one of: ''" and xs = PROTOCOLS]
    unfolding jp by (simp add: protocolSchema_def jp)
  have c: "m \<notin> set REQUEST_MODES \<longrightarrow>
      (\<exists>msg. requestModeSchema m = Inl (Error msg) \<and>
         msg = ''Invalid Request mode: '' @ [CHR 0x22] @ m @ [CHR 0x22] @
               ''. Must be one of: same-origin, no-cors, cors, navigate'' \<and>
         (\<forall>v \<in> set REQUEST_MODES. str_includes msg v))"
    using listed [where p = "''Invalid Request mode: ''" and q = "''. Must be one of: ''" and xs = REQUEST_MODES]
    unfolding jr by (simp add: requestModeSchema_def jr)
  have d: "\<forall>x. (\<exists>y. literal_parse (ZodLiteral m) x = Inr y) \<longleftrightarrow> x = JStr m"
    by (simp add: literal_parse_exact)
  have e: "m \<in> set HTTP_METHODS \<longrightarrow> httpMethodSchema m = Inr (ZodLiteral m)"
    by (simp add: httpMethodSchema_def)
  have f: "m \<in> set PROTOCOLS \<longrightarrow> protocolSchema m = Inr (ZodLiteral m)"
    by (simp add: protocolSchema_def)
  have g: "m \<in> set REQUEST_MODES \<longrightarrow> requestModeSchema m = Inr (ZodLiteral m)"
    by (simp add: requestModeSchema_def)
  from a b c d e f g show ?thesis by (intro conjI impI) (simp_all only: simp_thms)
qed

theorem literal_builders_validate_eagerly_witness:
  "httpMethodSchema ''TRACE'' =
     Inl (Error (''Invalid HTTP method: '' @ [CHR 0x22] @ ''TRACE'' @ [CHR 0x22] @
                 ''. Must be one of: GET, POST, PUT, PATCH, DELETE, HEAD, OPTIONS'')) \<and>
   httpMethodSchema ''POST'' = Inr (ZodLiteral ''POST'') \<and>
   literal_parse (ZodLiteral ''POST'') (JStr ''POST'') = Inr (JStr ''POST'') \<and>
   protocolSchema ''ftp'' =
     Inl (Error (''Invalid protocol: '' @ [CHR 0x22] @ ''ftp'' @ [CHR 0x22] @
                 ''. Must be one of: http, https'')) \<and>
   protocolSchema ''https'' = Inr (ZodLiteral ''https'') \<and>
   requestModeSchema ''cors'' = Inr (ZodLiteral ''cors'')"
  using literal_builders_validate_eagerly [of "''TRACE''"]
    literal_builders_validate_eagerly [of "''POST''"]
    literal_builders_validate_eagerly [of "''ftp''"]
    literal_builders_validate_eagerly [of "''https''"]
    literal_builders_validate_eagerly [of "''cors''"]
  by (simp add: HTTP_METHODS_def PROTOCOLS_def REQUEST_MODES_def literal_parse_def)

section \<open>The body sub-validator\<close>

lemmas body_defs = bodySchema_def json_branch_def form_branch_def text_branch_def
  urlencoded_decode_def multipart_decode_def call_json_def call_formData_def call_text_def
  call_clone_text_def call_rebuilt_formData_def startsWith_def assign_primitive_def

lemma json_branch_calls:
  "json_branch js r s = (res, s') \<Longrightarrow> set (new_calls s s') \<subseteq> {CallJson}"
  by (auto simp: json_branch_def call_json_def new_calls_def split: if_splits sum.splits)

lemma text_branch_calls:
  "text_branch ts r s = (res, s') \<Longrightarrow> set (new_calls s s') \<subseteq> {CallText}"
  by (auto simp: text_branch_def call_text_def new_calls_def split: if_splits sum.splits)

lemma urlencoded_decode_calls:
  "urlencoded_decode usp r s = (res, s') \<Longrightarrow>
   set (new_calls s s') \<subseteq> {CallFormData, CallCloneText, CallRebuiltFormData}"
  by (auto simp: urlencoded_decode_def call_formData_def call_clone_text_def new_calls_def
      split: if_splits sum.splits)

lemma multipart_decode_calls:
  "multipart_decode r s = (res, s') \<Longrightarrow>
   set (new_calls s s') \<subseteq> {CallFormData, CallCloneText, CallRebuiltFormData}"
  by (auto simp: multipart_decode_def call_formData_def call_rebuilt_formData_def new_calls_def
      split: if_splits sum.splits option.splits)

lemma form_branch_calls:
  assumes "form_branch usp fs r ct s = (res, s')"
  shows "set (new_calls s s') \<subseteq> {CallFormData, CallCloneText, CallRebuiltFormData}"
proof (cases "body_ref s = None")
  case True
  with assms show ?thesis by (auto simp: form_branch_def new_calls_def)
next
  case False
  show ?thesis
  proof (cases "str_includes ct ''application/x-www-form-urlencoded''")
    case True
    obtain d s1 where d: "urlencoded_decode usp r s = (d, s1)" by (cases "urlencoded_decode usp r s")
    with assms False True have "s' = s1"
      by (auto simp: form_branch_def split: sum.splits)
    with urlencoded_decode_calls [OF d] show ?thesis by simp
  next
    case nu: False
    obtain d s1 where d: "multipart_decode r s = (d, s1)" by (cases "multipart_decode r s")
    with assms False nu have "s' = s1"
      by (auto simp: form_branch_def split: sum.splits)
    with multipart_decode_calls [OF d] show ?thesis by simp
  qed
qed

lemma mismatch_message_lists:
  "t \<in> set (expectedTypes sc) \<Longrightarrow> str_includes (mismatch_message sc ct) t"
proof -
  assume "t \<in> set (expectedTypes sc)"
  then have "str_includes (join '', '' (expectedTypes sc)) t" by (rule join_includes_member)
  from str_includes_embed [OF this] show ?thesis
    unfolding mismatch_message_def by blast
qed

lemma json_branch_output:
  "json_branch js r s = (Inr out, s') \<Longrightarrow> \<exists>v x. out = JObj [(''body'', v)] \<and> js x = Inr v"
  by (auto simp: json_branch_def call_json_def split: if_splits sum.splits)

lemma text_branch_output:
  "text_branch ts r s = (Inr out, s') \<Longrightarrow> \<exists>v x. out = JObj [(''body'', v)] \<and> ts x = Inr v"
  by (auto simp: text_branch_def call_text_def split: if_splits sum.splits)

lemma form_branch_output:
  "form_branch usp fs r ct s = (Inr out, s') \<Longrightarrow> \<exists>v x. out = JObj [(''body'', v)] \<and> fs x = Inr v"
  by (auto simp: form_branch_def split: if_splits sum.splits prod.splits)

subsection \<open>Dispatch on the content type\<close>

text \<open>
  C3. The dispatch has a fixed priority: structured data, then form, then text, and each
  branch returns or throws. Whenever a structured-data schema is declared and the content
  type contains its token, the structured-data branch is taken, also when a declared form
  category matches too. Whenever a form schema is declared and matches, and the
  structured-data branch, which comes first, does not apply, the form branch is taken,
  also when a declared text category matches too. And the decoding calls of one
  validation all belong to one branch.
\<close>

theorem body_dispatch_priority:
  assumes ct: "contentType = (case req_headers r ''content-type'' of Some c \<Rightarrow> c | None \<Rightarrow> [])"
    and run: "bodySchema usp sc (IsRequest r) s = (res, s')"
  shows
    "(\<forall>js. schema_json sc = Some js \<and> str_includes contentType ''application/json'' \<longrightarrow>
        (res, s') = json_branch js r s \<and> set (new_calls s s') \<subseteq> {CallJson}) \<and>
     (\<forall>fs. schema_formData sc = Some fs \<and>
           (str_includes contentType ''multipart/form-data'' \<or>
            str_includes contentType ''application/x-www-form-urlencoded'') \<and>
           \<not> (schema_json sc \<noteq> None \<and> str_includes contentType ''application/json'') \<longrightarrow>
        (res, s') = form_branch usp fs r contentType s \<and>
        set (new_calls s s') \<subseteq> {CallFormData, CallCloneText, CallRebuiltFormData}) \<and>
     (set (new_calls s s') \<subseteq> {CallJson} \<or>
      set (new_calls s s') \<subseteq> {CallFormData, CallCloneText, CallRebuiltFormData} \<or>
      set (new_calls s s') \<subseteq> {CallText})"
proof -
  let ?j = "schema_json sc \<noteq> None \<and> str_includes contentType ''application/json''"
  let ?f = "schema_formData sc \<noteq> None \<and>
            (str_includes contentType ''multipart/form-data'' \<or>
             str_includes contentType ''application/x-www-form-urlencoded'')"
  let ?t = "schema_text sc \<noteq> None \<and> (startsWith contentType ''text/'' \<or> contentType = [])"
  have j: "(res, s') = json_branch (the (schema_json sc)) r s" if "?j"
    using that run unfolding ct bodySchema_def by (auto simp: Let_def)
  have f: "(res, s') = form_branch usp (the (schema_formData sc)) r contentType s"
    if "\<not> ?j" "?f"
    using that run unfolding ct bodySchema_def by (auto simp: Let_def)
  have t: "(res, s') = text_branch (the (schema_text sc)) r s" if "\<not> ?j" "\<not> ?f" "?t"
    using that run unfolding ct bodySchema_def by (auto simp: Let_def)
  have n: "s' = s" if "\<not> ?j" "\<not> ?f" "\<not> ?t"
    using that run unfolding ct bodySchema_def by (auto simp: Let_def split: if_splits)
  have jc: "set (new_calls s s') \<subseteq> {CallJson}" if "?j"
    using json_branch_calls [OF j [OF that, symmetric]] .
  have fc: "set (new_calls s s') \<subseteq> {CallFormData, CallCloneText, CallRebuiltFormData}"
    if "\<not> ?j" "?f"
    using form_branch_calls [OF f [OF that, symmetric]] .
  have tc: "set (new_calls s s') \<subseteq> {CallText}" if "\<not> ?j" "\<not> ?f" "?t"
    using text_branch_calls [OF t [OF that, symmetric]] .
  have one: "set (new_calls s s') \<subseteq> {CallJson} \<or>
      set (new_calls s s') \<subseteq> {CallFormData, CallCloneText, CallRebuiltFormData} \<or>
      set (new_calls s s') \<subseteq> {CallText}"
  proof (cases ?j)
    case True
    then show ?thesis using jc by blast
  next
    case nj: False
    show ?thesis
    proof (cases ?f)
      case True
      with nj show ?thesis using fc by blast
    next
      case nf: False
      show ?thesis
      proof (cases ?t)
        case True
        with nj nf show ?thesis using tc by blast
      next
        case False
        with nj nf have "s' = s" by (rule n)
        then show ?thesis by (simp add: new_calls_def)
      qed
    qed
  qed
  have first: "\<forall>js. schema_json sc = Some js \<and> str_includes contentType ''application/json'' \<longrightarrow>
        (res, s') = json_branch js r s \<and> set (new_calls s s') \<subseteq> {CallJson}"
    using j jc by auto
  have second: "\<forall>fs. schema_formData sc = Some fs \<and>
           (str_includes contentType ''multipart/form-data'' \<or>
            str_includes contentType ''application/x-www-form-urlencoded'') \<and>
           \<not> (schema_json sc \<noteq> None \<and> str_includes contentType ''application/json'') \<longrightarrow>
        (res, s') = form_branch usp fs r contentType s \<and>
        set (new_calls s s') \<subseteq> {CallFormData, CallCloneText, CallRebuiltFormData}"
    using f fc by auto
  from first second one show ?thesis by (intro conjI)
qed

theorem body_dispatch_priority_witness:
  "bodySchema usp_example all_schemas
     (IsRequest (request_with (Some ''application/json; application/x-www-form-urlencoded''))) with_body =
     (Inr (JObj [(''body'', JArr [JStr ''json'', JNum 1])]),
      \<lparr>body_ref = Some 7, calls = [CallJson]\<rparr>) \<and>
   bodySchema usp_example all_schemas
     (IsRequest (request_with (Some ''text/plain; multipart/form-data; boundary=x''))) with_body =
     (Inr (JObj [(''body'', JArr [JStr ''form'', JObj [(''f'', JStr ''v''), (''upload'', JUndefined)]])]),
      \<lparr>body_ref = Some 7, calls = [CallFormData]\<rparr>)"
  using body_dispatch_priority
    [of "''application/json; application/x-www-form-urlencoded''"
        "request_with (Some ''application/json; application/x-www-form-urlencoded'')"
        usp_example all_schemas with_body
        "Inr (JObj [(''body'', JArr [JStr ''json'', JNum 1])])"
        "\<lparr>body_ref = Some 7, calls = [CallJson]\<rparr>"]
    body_dispatch_priority
    [of "''text/plain; multipart/form-data; boundary=x''"
        "request_with (Some ''text/plain; multipart/form-data; boundary=x'')"
        usp_example all_schemas with_body
        "Inr (JObj [(''body'', JArr [JStr ''form'', JObj [(''f'', JStr ''v''), (''upload'', JUndefined)]])])"
        "\<lparr>body_ref = Some 7, calls = [CallFormData]\<rparr>"]
  by (simp add: body_defs request_with_def with_body_def tagging_def all_schemas_def
      usp_example_def)

subsection \<open>No branch matches\<close>

text \<open>
  C5, as stated, at a request without a body: only a structured-data schema is declared,
  the content type is \<^verbatim>\<open>application/xml\<close>, no branch matches, and the error is
  \<^verbatim>\<open>Request body is required\<close>, which says nothing of a content-type mismatch: the
  body is tested before the content type is reported.
\<close>

theorem mismatch_without_body_counterexample:
  "schema_json json_only \<noteq> None \<and>
   \<not> str_includes ''application/xml'' ''application/json'' \<and>
   schema_formData json_only = None \<and> schema_text json_only = None \<and>
   bodySchema usp_example json_only (IsRequest (request_with (Some ''application/xml''))) no_body =
     (Inl (Error ''Request body is required''), no_body) \<and>
   \<not> str_includes ''Request body is required'' ''Content-Type mismatch''"
  by (simp add: body_defs request_with_def no_body_def tagging_def json_only_def)

text \<open>
  C5, amended. When at least one category is declared and no declared category's branch
  matches the content type, a request with a body fails with the content-type mismatch
  error: its message begins with \<^verbatim>\<open>Content-Type mismatch\<close>, lists the media types
  of every declared category and ends with the content type received, or with the
  placeholder when the content type is empty or absent. A request without a body fails
  with \<^verbatim>\<open>Request body is required\<close> instead.
\<close>

theorem content_type_mismatch:
  assumes ct: "contentType = (case req_headers r ''content-type'' of Some c \<Rightarrow> c | None \<Rightarrow> [])"
    and declared: "schema_json sc \<noteq> None \<or> schema_formData sc \<noteq> None \<or> schema_text sc \<noteq> None"
    and nj: "\<not> (schema_json sc \<noteq> None \<and> str_includes contentType ''application/json'')"
    and nf: "\<not> (schema_formData sc \<noteq> None \<and>
               (str_includes contentType ''multipart/form-data'' \<or>
                str_includes contentType ''application/x-www-form-urlencoded''))"
    and nt: "\<not> (schema_text sc \<noteq> None \<and> (startsWith contentType ''text/'' \<or> contentType = []))"
  shows
    "(body_ref s \<noteq> None \<longrightarrow>
        bodySchema usp sc (IsRequest r) s =
          (Inl (Error (''Content-Type mismatch. Expected one of: '' @
                       join '', '' (expectedTypes sc) @ '', but got: '' @
                       (if contentType = [] then ''(no content-type header)'' else contentType))), s)) \<and>
     (body_ref s = None \<longrightarrow>
        bodySchema usp sc (IsRequest r) s = (Inl (Error ''Request body is required''), s)) \<and>
     (schema_json sc \<noteq> None \<longrightarrow>
        str_includes (mismatch_message sc contentType) ''application/json'') \<and>
     (schema_formData sc \<noteq> None \<longrightarrow>
        str_includes (mismatch_message sc contentType) ''multipart/form-data'' \<and>
        str_includes (mismatch_message sc contentType) ''application/x-www-form-urlencoded'') \<and>
     (schema_text sc \<noteq> None \<longrightarrow> str_includes (mismatch_message sc contentType) ''text/*'') \<and>
     mismatch_message sc contentType =
       ''Content-Type mismatch. Expected one of: '' @ join '', '' (expectedTypes sc) @
       '', but got: '' @ (if contentType = [] then ''(no content-type header)'' else contentType)"
proof -
  have run: "bodySchema usp sc (IsRequest r) s =
      (if body_ref s = None then (Inl (Error ''Request body is required''), s)
       else (Inl (Error (mismatch_message sc contentType)), s))"
    using declared nj nf nt unfolding ct bodySchema_def by (auto simp: Let_def)
  have j: "schema_json sc \<noteq> None \<longrightarrow>
        str_includes (mismatch_message sc contentType) ''application/json''"
    by (auto intro!: mismatch_message_lists simp: expectedTypes_def)
  have f: "schema_formData sc \<noteq> None \<longrightarrow>
        str_includes (mismatch_message sc contentType) ''multipart/form-data'' \<and>
        str_includes (mismatch_message sc contentType) ''application/x-www-form-urlencoded''"
    by (auto intro!: mismatch_message_lists simp: expectedTypes_def)
  have t: "schema_text sc \<noteq> None \<longrightarrow> str_includes (mismatch_message sc contentType) ''text/*''"
    by (auto intro!: mismatch_message_lists simp: expectedTypes_def)
  have m: "mismatch_message sc contentType =
       ''Content-Type mismatch. Expected one of: '' @ join '', '' (expectedTypes sc) @
       '', but got: '' @ (if contentType = [] then ''(no content-type header)'' else contentType)"
    by (simp only: mismatch_message_def)
  have a: "body_ref s \<noteq> None \<longrightarrow>
        bodySchema usp sc (IsRequest r) s =
          (Inl (Error (''Content-Type mismatch. Expected one of: '' @
                       join '', '' (expectedTypes sc) @ '', but got: '' @
                       (if contentType = [] then ''(no content-type header)'' else contentType))), s)"
    unfolding run m [symmetric] by simp
  have b: "body_ref s = None \<longrightarrow>
        bodySchema usp sc (IsRequest r) s = (Inl (Error ''Request body is required''), s)"
    unfolding run by simp
  from a b j f t m show ?thesis by (intro conjI)
qed

theorem content_type_mismatch_witness:
  "bodySchema usp_example json_only (IsRequest (request_with (Some ''application/xml''))) with_body =
     (Inl (Error ''Content-Type mismatch. Expected one of: application/json, but got: application/xml''),
      with_body) \<and>
   bodySchema usp_example form_only (IsRequest (request_with None)) with_body =
     (Inl (Error (''Content-Type mismatch. Expected one of: multipart/form-data, '' @
                  ''application/x-www-form-urlencoded, but got: (no content-type header)'')),
      with_body)"
  using content_type_mismatch
      [of "''application/xml''" "request_with (Some ''application/xml'')" json_only with_body usp_example]
    content_type_mismatch [of "[]" "request_with None" form_only with_body usp_example]
  by (simp add: request_with_def with_body_def tagging_def json_only_def form_only_def
      expectedTypes_def startsWith_def)

subsection \<open>The url-encoded form body\<close>

text \<open>
  C6. In the url-encoded part of the form branch the request's own \<^verbatim>\<open>formData()\<close>
  is called first, and its entries are validated when it answers. When it throws, the
  clone's text is read and parsed as url-encoded parameters, and those are validated. When
  that throws too, the error of the validation is the first one, that of
  \<^verbatim>\<open>formData()\<close>. The calls recorded in the state show the order of the attempts.
\<close>

theorem urlencoded_two_step_decoding:
  assumes ct: "contentType = (case req_headers r ''content-type'' of Some c \<Rightarrow> c | None \<Rightarrow> [])"
    and form: "schema_formData sc = Some fs"
    and nj: "\<not> (schema_json sc \<noteq> None \<and> str_includes contentType ''application/json'')"
    and ue: "str_includes contentType ''application/x-www-form-urlencoded''"
    and body: "body_ref s \<noteq> None"
  shows
    "(\<forall>formData. req_formData r = Inr formData \<longrightarrow>
        bodySchema usp sc (IsRequest r) s =
          (case fs (JObj (formData_loop formData [])) of
             Inl e \<Rightarrow> Inl e
           | Inr v \<Rightarrow> Inr (JObj [(''body'', v)]),
           s\<lparr>calls := calls s @ [CallFormData]\<rparr>)) \<and>
     (\<forall>formDataError txt. req_formData r = Inl formDataError \<and> req_clone_text r = Inr txt \<longrightarrow>
        bodySchema usp sc (IsRequest r) s =
          (case fs (JObj (params_loop (usp txt) [])) of
             Inl e \<Rightarrow> Inl e
           | Inr v \<Rightarrow> Inr (JObj [(''body'', v)]),
           s\<lparr>calls := calls s @ [CallFormData, CallCloneText]\<rparr>)) \<and>
     (\<forall>formDataError textError.
        req_formData r = Inl formDataError \<and> req_clone_text r = Inl textError \<longrightarrow>
        bodySchema usp sc (IsRequest r) s =
          (Inl formDataError, s\<lparr>calls := calls s @ [CallFormData, CallCloneText]\<rparr>))"
proof -
  have run: "bodySchema usp sc (IsRequest r) s = form_branch usp fs r contentType s"
    using form nj ue unfolding ct bodySchema_def by (auto simp: Let_def)
  have fb: "form_branch usp fs r contentType s =
      (case urlencoded_decode usp r s of
         (Inl e, s1) \<Rightarrow> (Inl e, s1)
       | (Inr obj, s1) \<Rightarrow>
           (case fs (JObj obj) of
              Inl e \<Rightarrow> (Inl e, s1)
            | Inr v \<Rightarrow> (Inr (JObj [(''body'', v)]), s1)))"
    using ue body by (auto simp: form_branch_def)
  show ?thesis
    unfolding run fb
    by (auto simp: urlencoded_decode_def call_formData_def call_clone_text_def split: sum.splits)
qed

theorem urlencoded_two_step_decoding_witness:
  "bodySchema usp_example form_only
     (IsRequest (request_with (Some ''application/x-www-form-urlencoded''))) with_body =
     (Inr (JObj [(''body'', JArr [JStr ''form'', JObj [(''f'', JStr ''v''), (''upload'', JUndefined)]])]),
      \<lparr>body_ref = Some 7, calls = [CallFormData]\<rparr>) \<and>
   bodySchema usp_example form_only
     (IsRequest ((request_with (Some ''application/x-www-form-urlencoded''))
        \<lparr>req_formData := Inl (Error ''first'')\<rparr>)) with_body =
     (Inr (JObj [(''body'', JArr [JStr ''form'', JObj [(''a'', JStr ''1'')]])]),
      \<lparr>body_ref = Some 7, calls = [CallFormData, CallCloneText]\<rparr>) \<and>
   bodySchema usp_example form_only
     (IsRequest ((request_with (Some ''application/x-www-form-urlencoded''))
        \<lparr>req_formData := Inl (Error ''first''), req_clone_text := Inl (Error ''second'')\<rparr>)) with_body =
     (Inl (Error ''first''), \<lparr>body_ref = Some 7, calls = [CallFormData, CallCloneText]\<rparr>)"
  using urlencoded_two_step_decoding
      [of "''application/x-www-form-urlencoded''"
          "request_with (Some ''application/x-www-form-urlencoded'')"
          form_only "tagging ''form''" with_body usp_example]
    urlencoded_two_step_decoding
      [of "''application/x-www-form-urlencoded''"
          "(request_with (Some ''application/x-www-form-urlencoded''))
             \<lparr>req_formData := Inl (Error ''first'')\<rparr>"
          form_only "tagging ''form''" with_body usp_example]
    urlencoded_two_step_decoding
      [of "''application/x-www-form-urlencoded''"
          "(request_with (Some ''application/x-www-form-urlencoded''))
             \<lparr>req_formData := Inl (Error ''first''), req_clone_text := Inl (Error ''second'')\<rparr>"
          form_only "tagging ''form''" with_body usp_example]
  by (simp add: request_with_def with_body_def tagging_def form_only_def usp_example_def
      assign_primitive_def)

subsection \<open>The shape of the output\<close>

text \<open>
  C7. Built with no schema at all, the body sub-validator answers \<^verbatim>\<open>{ body: undefined }\<close>
  for every request and leaves the request untouched. Whatever it is built with, every
  output is an object with the single field \<^verbatim>\<open>body\<close>, and that field holds
  \<^verbatim>\<open>undefined\<close> (when no schema is declared) or a value that one of the declared
  schemas returned.
\<close>

theorem body_output_is_wrapper:
  "bodySchema usp \<lparr>schema_json = None, schema_formData = None, schema_text = None\<rparr>
     (IsRequest r) s = (Inr (JObj [(''body'', JUndefined)]), s) \<and>
   (\<forall>out s'. bodySchema usp sc val s = (Inr out, s') \<longrightarrow>
      (\<exists>v. out = JObj [(''body'', v)] \<and>
           ((v = JUndefined \<and> schema_json sc = None \<and> schema_formData sc = None \<and>
             schema_text sc = None) \<or>
            (\<exists>sch x. Some sch \<in> {schema_json sc, schema_formData sc, schema_text sc} \<and>
                     sch x = Inr v))))"
proof -
  have none: "bodySchema usp \<lparr>schema_json = None, schema_formData = None, schema_text = None\<rparr>
     (IsRequest r) s = (Inr (JObj [(''body'', JUndefined)]), s)"
    by (simp add: bodySchema_def)
  have wrap: "\<exists>v. out = JObj [(''body'', v)] \<and>
           ((v = JUndefined \<and> schema_json sc = None \<and> schema_formData sc = None \<and>
             schema_text sc = None) \<or>
            (\<exists>sch x. Some sch \<in> {schema_json sc, schema_formData sc, schema_text sc} \<and>
                     sch x = Inr v))"
    if run: "bodySchema usp sc val s = (Inr out, s')" for out s'
  proof (cases val)
    case (NotRequest other)
    with run show ?thesis by (simp add: bodySchema_def)
  next
    case (IsRequest rq)
    define ct where "ct = (case req_headers rq ''content-type'' of Some c \<Rightarrow> c | None \<Rightarrow> [])"
    let ?j = "schema_json sc \<noteq> None \<and> str_includes ct ''application/json''"
    let ?f = "schema_formData sc \<noteq> None \<and>
              (str_includes ct ''multipart/form-data'' \<or>
               str_includes ct ''application/x-www-form-urlencoded'')"
    let ?t = "schema_text sc \<noteq> None \<and> (startsWith ct ''text/'' \<or> ct = [])"
    show ?thesis
    proof (cases ?j)
      case True
      then obtain js where js: "schema_json sc = Some js" by auto
      with True run IsRequest have "json_branch js rq s = (Inr out, s')"
        unfolding ct_def bodySchema_def by (auto simp: Let_def)
      from json_branch_output [OF this] js show ?thesis by auto
    next
      case nj: False
      show ?thesis
      proof (cases ?f)
        case True
        then obtain fs where fs: "schema_formData sc = Some fs" by auto
        with True nj run IsRequest have "form_branch usp fs rq ct s = (Inr out, s')"
          unfolding ct_def bodySchema_def by (auto simp: Let_def)
        from form_branch_output [OF this] fs show ?thesis by auto
      next
        case nf: False
        show ?thesis
        proof (cases ?t)
          case True
          then obtain ts where ts: "schema_text sc = Some ts" by auto
          with True nj nf run IsRequest have "text_branch ts rq s = (Inr out, s')"
            unfolding ct_def bodySchema_def by (auto simp: Let_def)
          from text_branch_output [OF this] ts show ?thesis by auto
        next
          case False
          with nj nf run IsRequest show ?thesis
            unfolding ct_def bodySchema_def by (auto simp: Let_def split: if_splits)
        qed
      qed
    qed
  qed
  from none wrap show ?thesis by blast
qed

theorem body_output_is_wrapper_witness:
  "bodySchema usp_example \<lparr>schema_json = None, schema_formData = None, schema_text = None\<rparr>
     (IsRequest (request_with (Some ''application/json''))) with_body =
     (Inr (JObj [(''body'', JUndefined)]), with_body) \<and>
   bodySchema usp_example json_only (IsRequest (request_with (Some ''application/json''))) with_body =
     (Inr (JObj [(''body'', JArr [JStr ''json'', JNum 1])]),
      \<lparr>body_ref = Some 7, calls = [CallJson]\<rparr>)"
  using body_output_is_wrapper
    [of usp_example "request_with (Some ''application/json'')" with_body json_only
        "IsRequest (request_with (Some ''application/json''))"]
  by (simp add: body_defs request_with_def with_body_def tagging_def json_only_def)

section \<open>The composite validator\<close>

lemmas request_defs = requestSchema_def request_preprocess_def after_body_def simple_field_def
  processSimpleField_def processBody_def prop_body_def processSearchParams_def
  processHeaders_def extractBaseSchema_def buildResultSchema_def result_fields_def z_object_def
  field_results_def is_record_def is_undefined_def z_unknown_def z_unknown_optional_def
  z_instanceof_URL_def z_instanceof_Headers_def z_instanceof_ReadableStream_nullable_def

lemma after_body_result:
  assumes "after_body cfg r urlObj spo br = Inr res"
  shows "\<exists>h ho m mo p hn pn.
     res = JObj [(''url'', JURL urlObj), (''searchParamsObject'', spo),
                 (''body'', originalBody br), (''bodyObject'', bodyValue br),
                 (''headers'', h), (''headersObj'', ho), (''method'', m), (''mode'', mo),
                 (''protocol'', p), (''hostname'', hn), (''pathname'', pn)] \<and>
     (case cfg_headers cfg of
        None \<Rightarrow> h = JUndefined \<and> ho = JUndefined
      | Some hs \<Rightarrow> h = JHeaders (req_headers r) \<and> processHeaders hs (req_headers r) = Inr ho) \<and>
     simple_field (cfg_method cfg) (req_method r) = Inr m \<and>
     simple_field (cfg_mode cfg) (req_mode r) = Inr mo \<and>
     simple_field (cfg_protocol cfg) (js_replace (protocol urlObj) '':'' []) = Inr p \<and>
     simple_field (cfg_hostname cfg) (hostname urlObj) = Inr hn \<and>
     simple_field (cfg_pathname cfg) (pathname urlObj) = Inr pn"
  using assms unfolding after_body_def Let_def
  by (auto split: sum.splits option.splits)

lemma processBody_result:
  assumes "processBody b r s = (Inr br, s')"
  shows "originalBody br = (case body_ref s of Some h \<Rightarrow> JStream h | None \<Rightarrow> JNull) \<and>
         (\<exists>p. b (IsRequest r) s = (Inr p, s') \<and> parsed br = p \<and> prop_body p = Inr (bodyValue br))"
  using assms unfolding processBody_def Let_def
  by (auto split: sum.splits prod.splits)

lemma request_preprocess_steps:
  assumes "request_preprocess usp cfg val s = (Inr res, s')"
  shows "\<exists>r spo br.
     val = IsRequest r \<and>
     (case cfg_searchParams cfg of
        None \<Rightarrow> spo = JUndefined
      | Some sp \<Rightarrow> processSearchParams usp sp (req_url r) = Inr spo) \<and>
     (case cfg_body cfg of
        None \<Rightarrow> br = \<lparr>parsed = JUndefined, bodyValue = JUndefined, originalBody = JUndefined\<rparr> \<and> s' = s
      | Some b \<Rightarrow> processBody b r s = (Inr br, s')) \<and>
     after_body cfg r (req_url r) spo br = Inr res"
  using assms unfolding request_preprocess_def Let_def
  by (auto split: input.splits sum.splits option.splits prod.splits)

text \<open>What the function hands to the result schema, field by field.\<close>

lemma request_preprocess_fields:
  assumes "request_preprocess usp cfg val s = (Inr out, s')"
  shows "\<exists>r. val = IsRequest r \<and>
     js_read out ''url'' = JURL (req_url r) \<and>
     (case cfg_searchParams cfg of
        None \<Rightarrow> js_read out ''searchParamsObject'' = JUndefined
      | Some sp \<Rightarrow>
          processSearchParams usp sp (req_url r) = Inr (js_read out ''searchParamsObject'')) \<and>
     (case cfg_body cfg of
        None \<Rightarrow> js_read out ''body'' = JUndefined \<and> js_read out ''bodyObject'' = JUndefined \<and> s' = s
      | Some bv \<Rightarrow>
          js_read out ''body'' = (case body_ref s of Some st \<Rightarrow> JStream st | None \<Rightarrow> JNull) \<and>
          (\<exists>p. bv (IsRequest r) s = (Inr p, s') \<and> prop_body p = Inr (js_read out ''bodyObject''))) \<and>
     (case cfg_headers cfg of
        None \<Rightarrow> js_read out ''headers'' = JUndefined \<and> js_read out ''headersObj'' = JUndefined
      | Some hs \<Rightarrow>
          js_read out ''headers'' = JHeaders (req_headers r) \<and>
          processHeaders hs (req_headers r) = Inr (js_read out ''headersObj'')) \<and>
     simple_field (cfg_method cfg) (req_method r) = Inr (js_read out ''method'') \<and>
     simple_field (cfg_mode cfg) (req_mode r) = Inr (js_read out ''mode'') \<and>
     simple_field (cfg_protocol cfg) (js_replace (protocol (req_url r)) '':'' []) =
       Inr (js_read out ''protocol'') \<and>
     simple_field (cfg_hostname cfg) (hostname (req_url r)) = Inr (js_read out ''hostname'') \<and>
     simple_field (cfg_pathname cfg) (pathname (req_url r)) = Inr (js_read out ''pathname'')"
proof -
  from request_preprocess_steps [OF assms] obtain r spo br where
    val: "val = IsRequest r"
    and sp: "case cfg_searchParams cfg of
        None \<Rightarrow> spo = JUndefined
      | Some sp \<Rightarrow> processSearchParams usp sp (req_url r) = Inr spo"
    and bd: "case cfg_body cfg of
        None \<Rightarrow> br = \<lparr>parsed = JUndefined, bodyValue = JUndefined, originalBody = JUndefined\<rparr> \<and> s' = s
      | Some b \<Rightarrow> processBody b r s = (Inr br, s')"
    and ab: "after_body cfg r (req_url r) spo br = Inr out"
    by blast
  from after_body_result [OF ab] obtain h ho m mo p hn pn where
    out: "out = JObj [(''url'', JURL (req_url r)), (''searchParamsObject'', spo),
                 (''body'', originalBody br), (''bodyObject'', bodyValue br),
                 (''headers'', h), (''headersObj'', ho), (''method'', m), (''mode'', mo),
                 (''protocol'', p), (''hostname'', hn), (''pathname'', pn)]"
    and hd: "case cfg_headers cfg of
        None \<Rightarrow> h = JUndefined \<and> ho = JUndefined
      | Some hs \<Rightarrow> h = JHeaders (req_headers r) \<and> processHeaders hs (req_headers r) = Inr ho"
    and f1: "simple_field (cfg_method cfg) (req_method r) = Inr m"
    and f2: "simple_field (cfg_mode cfg) (req_mode r) = Inr mo"
    and f3: "simple_field (cfg_protocol cfg) (js_replace (protocol (req_url r)) '':'' []) = Inr p"
    and f4: "simple_field (cfg_hostname cfg) (hostname (req_url r)) = Inr hn"
    and f5: "simple_field (cfg_pathname cfg) (pathname (req_url r)) = Inr pn"
    by blast
  have reads: "js_read out ''url'' = JURL (req_url r)"
    "js_read out ''searchParamsObject'' = spo"
    "js_read out ''body'' = originalBody br" "js_read out ''bodyObject'' = bodyValue br"
    "js_read out ''headers'' = h" "js_read out ''headersObj'' = ho"
    "js_read out ''method'' = m" "js_read out ''mode'' = mo" "js_read out ''protocol'' = p"
    "js_read out ''hostname'' = hn" "js_read out ''pathname'' = pn"
    unfolding out by simp_all
  have c1: "case cfg_searchParams cfg of
        None \<Rightarrow> js_read out ''searchParamsObject'' = JUndefined
      | Some sp \<Rightarrow>
          processSearchParams usp sp (req_url r) = Inr (js_read out ''searchParamsObject'')"
    using sp unfolding reads by simp
  have c2: "case cfg_body cfg of
        None \<Rightarrow> js_read out ''body'' = JUndefined \<and> js_read out ''bodyObject'' = JUndefined \<and> s' = s
      | Some bv \<Rightarrow>
          js_read out ''body'' = (case body_ref s of Some st \<Rightarrow> JStream st | None \<Rightarrow> JNull) \<and>
          (\<exists>p. bv (IsRequest r) s = (Inr p, s') \<and> prop_body p = Inr (js_read out ''bodyObject''))"
  proof (cases "cfg_body cfg")
    case None
    with bd show ?thesis unfolding reads by simp
  next
    case (Some bv)
    with bd have "processBody bv r s = (Inr br, s')" by simp
    from processBody_result [OF this] Some show ?thesis unfolding reads by auto
  qed
  have c3: "case cfg_headers cfg of
        None \<Rightarrow> js_read out ''headers'' = JUndefined \<and> js_read out ''headersObj'' = JUndefined
      | Some hs \<Rightarrow>
          js_read out ''headers'' = JHeaders (req_headers r) \<and>
          processHeaders hs (req_headers r) = Inr (js_read out ''headersObj'')"
    using hd unfolding reads by simp
  show ?thesis
    apply (rule exI [of _ r])
    using val c1 c2 c3 f1 f2 f3 f4 f5 reads(1)
    unfolding reads(7-11)
    apply (intro conjI)
    apply (simp_all only: simp_thms)
    done
qed

subsection \<open>The object schema\<close>

lemma field_values_keys: "fst ` set (field_values input rs) \<subseteq> fst ` set rs"
  by (induction input rs rule: field_values.induct) auto

lemma is_undefined_eq: "is_undefined v \<longleftrightarrow> v = JUndefined"
  by (cases v) (simp_all add: is_undefined_def)

lemma field_results_valid:
  "\<not> any_invalid (field_results flds input) \<Longrightarrow> (key, sch) \<in> set flds \<Longrightarrow>
   \<exists>v. sch (js_read input key) = Inr v"
proof (induction flds)
  case Nil
  then show ?case by simp
next
  case (Cons f flds)
  obtain k0 s0 where f: "f = (k0, s0)" by (cases f)
  show ?case
  proof (cases "s0 (js_read input k0)")
    case (Inl e)
    with Cons.prems f show ?thesis by (simp add: field_results_def)
  next
    case (Inr v0)
    with Cons.prems f have rest: "\<not> any_invalid (field_results flds input)"
      by (simp add: field_results_def)
    from Cons.prems(2) f consider "key = k0 \<and> sch = s0" | "(key, sch) \<in> set flds" by auto
    then show ?thesis
    proof cases
      case 1
      with Inr show ?thesis by simp
    next
      case 2
      from Cons.IH [OF rest 2] show ?thesis .
    qed
  qed
qed

lemma field_values_read:
  "distinct (map fst flds) \<Longrightarrow> \<not> any_invalid (field_results flds input) \<Longrightarrow>
   (key, sch) \<in> set flds \<Longrightarrow> sch (js_read input key) = Inr v \<Longrightarrow>
   js_read (JObj (field_values input (field_results flds input))) key = v"
proof (induction flds)
  case Nil
  then show ?case by simp
next
  case (Cons f flds)
  obtain k0 s0 where f: "f = (k0, s0)" by (cases f)
  from Cons.prems(1) f have fresh: "k0 \<notin> fst ` set flds" and dist: "distinct (map fst flds)"
    by auto
  from Cons.prems(2) f obtain v0 where v0: "s0 (js_read input k0) = Inr v0"
    by (cases "s0 (js_read input k0)") (simp_all add: field_results_def)
  with Cons.prems(2) f have rest: "\<not> any_invalid (field_results flds input)"
    by (simp add: field_results_def)
  have none: "map_of (field_values input (field_results flds input)) k0 = None"
  proof -
    have "fst ` set (field_results flds input) = fst ` set flds"
      by (force simp: field_results_def)
    with field_values_keys [of input "field_results flds input"] fresh
    have "k0 \<notin> fst ` set (field_values input (field_results flds input))" by blast
    then show ?thesis by (simp add: map_of_eq_None_iff)
  qed
  show ?case
  proof (cases "key = k0")
    case True
    with Cons.prems(3) f fresh have "sch = s0" by force
    with Cons.prems(4) True v0 have "v = v0" by simp
    with True f v0 none show ?thesis
      by (auto simp: field_results_def is_undefined_eq)
  next
    case False
    with Cons.prems(3) f have mem: "(key, sch) \<in> set flds" by simp
    from Cons.IH [OF dist rest mem Cons.prems(4)] False f v0 show ?thesis
      by (auto simp: field_results_def)
  qed
qed

lemma z_object_field:
  assumes "z_object flds input = Inr out" and "distinct (map fst flds)"
    and "(key, sch) \<in> set flds"
  shows "sch (js_read input key) = Inr (js_read out key)"
proof -
  from assms(1) have ok: "\<not> any_invalid (field_results flds input)"
    and out: "out = JObj (field_values input (field_results flds input))"
    by (auto simp: z_object_def Let_def split: if_splits option.splits)
  from field_results_valid [OF ok assms(3)] obtain v where v: "sch (js_read input key) = Inr v"
    by blast
  from field_values_read [OF assms(2) ok assms(3) v] v out show ?thesis by simp
qed

lemma z_object_other:
  assumes "z_object flds input = Inr out" and "key \<notin> fst ` set flds"
  shows "js_prop out key = None"
proof -
  from assms(1) have out: "out = JObj (field_values input (field_results flds input))"
    by (auto simp: z_object_def Let_def split: if_splits option.splits)
  have "fst ` set (field_results flds input) = fst ` set flds"
    by (force simp: field_results_def)
  with field_values_keys [of input "field_results flds input"] assms(2)
  have "key \<notin> fst ` set (field_values input (field_results flds input))" by blast
  then have "map_of (field_values input (field_results flds input)) key = None"
    by (simp add: map_of_eq_None_iff)
  with out show ?thesis by (simp add: js_prop_def)
qed

lemma result_fields_distinct: "distinct (map fst (result_fields cfg))"
  by (simp add: result_fields_def)

lemma result_fields_keys: "map fst (result_fields cfg) = RESULT_KEYS"
  by (simp add: result_fields_def RESULT_KEYS_def)

lemma result_fields_member:
  "(''url'', z_instanceof_URL) \<in> set (result_fields cfg)"
  "(''searchParamsObject'',
      (case cfg_searchParams cfg of
         Some sp \<Rightarrow>
           (case extractBaseSchema sp of
              Some baseSchema \<Rightarrow> base_parseAsync baseSchema
            | None \<Rightarrow> z_unknown)
       | None \<Rightarrow> z_unknown_optional)) \<in> set (result_fields cfg)"
  "(''body'',
      (case cfg_body cfg of
         Some b \<Rightarrow> z_instanceof_ReadableStream_nullable
       | None \<Rightarrow> z_unknown_optional)) \<in> set (result_fields cfg)"
  "(''bodyObject'',
      (case cfg_body cfg of Some b \<Rightarrow> z_unknown | None \<Rightarrow> z_unknown_optional))
     \<in> set (result_fields cfg)"
  "(''headers'',
      (case cfg_headers cfg of
         Some h \<Rightarrow> z_instanceof_Headers
       | None \<Rightarrow> z_unknown_optional)) \<in> set (result_fields cfg)"
  "(''headersObj'',
      (case cfg_headers cfg of
         Some h \<Rightarrow>
           (case extractBaseSchema h of
              Some baseSchema \<Rightarrow> base_parseAsync baseSchema
            | None \<Rightarrow> z_unknown)
       | None \<Rightarrow> z_unknown_optional)) \<in> set (result_fields cfg)"
  "(''method'', (case cfg_method cfg of Some f \<Rightarrow> f | None \<Rightarrow> z_unknown_optional))
     \<in> set (result_fields cfg)"
  "(''mode'', (case cfg_mode cfg of Some f \<Rightarrow> f | None \<Rightarrow> z_unknown_optional))
     \<in> set (result_fields cfg)"
  "(''protocol'', (case cfg_protocol cfg of Some f \<Rightarrow> f | None \<Rightarrow> z_unknown_optional))
     \<in> set (result_fields cfg)"
  "(''hostname'', (case cfg_hostname cfg of Some f \<Rightarrow> f | None \<Rightarrow> z_unknown_optional))
     \<in> set (result_fields cfg)"
  "(''pathname'', (case cfg_pathname cfg of Some f \<Rightarrow> f | None \<Rightarrow> z_unknown_optional))
     \<in> set (result_fields cfg)"
  by (simp_all add: result_fields_def)

lemma instance_schemas:
  "z_instanceof_URL x = Inr y \<Longrightarrow> y = x"
  "z_instanceof_Headers x = Inr y \<Longrightarrow> y = x"
  "z_instanceof_ReadableStream_nullable x = Inr y \<Longrightarrow> y = x"
  "z_unknown x = Inr y \<Longrightarrow> y = x"
  "z_unknown_optional x = Inr y \<Longrightarrow> y = x"
  by (auto simp: z_instanceof_URL_def z_instanceof_Headers_def
      z_instanceof_ReadableStream_nullable_def z_unknown_def z_unknown_optional_def
      split: jsvalue.splits)

text \<open>A simple facet: validated by the function, and once more by the result schema.\<close>

lemma simple_facet_twice:
  assumes "simple_field sch v = Inr m"
    and "(case sch of Some f \<Rightarrow> f | None \<Rightarrow> z_unknown_optional) m = Inr x"
  shows "case sch of
           None \<Rightarrow> x = JUndefined
         | Some f \<Rightarrow> \<exists>w. f (JStr v) = Inr w \<and> f w = Inr x"
  using assms
  by (auto simp: simple_field_def processSimpleField_def z_unknown_optional_def
      split: option.splits)

lemma requestSchema_steps:
  assumes "requestSchema usp cfg val s = (Inr res, s')"
  shows "\<exists>out. request_preprocess usp cfg val s = (Inr out, s') \<and>
               z_object (result_fields cfg) out = Inr res"
  using assms unfolding requestSchema_def buildResultSchema_def
  by (auto split: prod.splits sum.splits)

subsection \<open>The facets of the result\<close>

text \<open>
  C2. When the composite validation succeeds, the input is a request and the result is
  an object whose fields are, read by name:
  \<^item> \<open>url\<close>, always: the URL of the request;
  \<^item> for every facet that was not supplied, \<^verbatim>\<open>undefined\<close> in each of its fields
    (\<open>searchParamsObject\<close>; \<open>body\<close> and \<open>bodyObject\<close>; \<open>headers\<close> and \<open>headersObj\<close>;
    \<open>method\<close>; \<open>mode\<close>; \<open>protocol\<close>; \<open>hostname\<close>; \<open>pathname\<close>): the object may keep
    the name of such a field, but no data of the facet is under it; and a body facet that
    was not supplied leaves the request untouched;
  \<^item> for every facet that was supplied, the data of that facet: what the sub-validator
    made of the request's search params, body, headers, method, mode, protocol (without
    its colon), hostname or pathname, validated once more by the facet's schema in the
    result schema; with the body also the stream of the request (\<^verbatim>\<open>null\<close> when it
    has none), with the headers also the headers of the request;
  \<^item> and no property under any other name.
\<close>

theorem result_has_exactly_the_supplied_facets:
  assumes "requestSchema usp cfg val s = (Inr res, s')"
  shows "\<exists>r. val = IsRequest r \<and>
     js_read res ''url'' = JURL (req_url r) \<and>
     (case cfg_searchParams cfg of
        None \<Rightarrow> js_read res ''searchParamsObject'' = JUndefined
      | Some sp \<Rightarrow>
          (\<exists>b v. extractBaseSchema sp = Some b \<and>
                 processSearchParams usp sp (req_url r) = Inr v \<and>
                 base_parseAsync b v = Inr (js_read res ''searchParamsObject''))) \<and>
     (case cfg_body cfg of
        None \<Rightarrow> js_read res ''body'' = JUndefined \<and> js_read res ''bodyObject'' = JUndefined \<and>
                s' = s
      | Some bv \<Rightarrow>
          js_read res ''body'' = (case body_ref s of Some st \<Rightarrow> JStream st | None \<Rightarrow> JNull) \<and>
          (\<exists>p. bv (IsRequest r) s = (Inr p, s') \<and>
               prop_body p = Inr (js_read res ''bodyObject''))) \<and>
     (case cfg_headers cfg of
        None \<Rightarrow> js_read res ''headers'' = JUndefined \<and> js_read res ''headersObj'' = JUndefined
      | Some hs \<Rightarrow>
          js_read res ''headers'' = JHeaders (req_headers r) \<and>
          (\<exists>b v. extractBaseSchema hs = Some b \<and>
                 processHeaders hs (req_headers r) = Inr v \<and>
                 base_parseAsync b v = Inr (js_read res ''headersObj''))) \<and>
     (case cfg_method cfg of
        None \<Rightarrow> js_read res ''method'' = JUndefined
      | Some f \<Rightarrow> (\<exists>v. f (JStr (req_method r)) = Inr v \<and> f v = Inr (js_read res ''method''))) \<and>
     (case cfg_mode cfg of
        None \<Rightarrow> js_read res ''mode'' = JUndefined
      | Some f \<Rightarrow> (\<exists>v. f (JStr (req_mode r)) = Inr v \<and> f v = Inr (js_read res ''mode''))) \<and>
     (case cfg_protocol cfg of
        None \<Rightarrow> js_read res ''protocol'' = JUndefined
      | Some f \<Rightarrow>
          (\<exists>v. f (JStr (js_replace (protocol (req_url r)) '':'' [])) = Inr v \<and>
               f v = Inr (js_read res ''protocol''))) \<and>
     (case cfg_hostname cfg of
        None \<Rightarrow> js_read res ''hostname'' = JUndefined
      | Some f \<Rightarrow>
          (\<exists>v. f (JStr (hostname (req_url r))) = Inr v \<and> f v = Inr (js_read res ''hostname''))) \<and>
     (case cfg_pathname cfg of
        None \<Rightarrow> js_read res ''pathname'' = JUndefined
      | Some f \<Rightarrow>
          (\<exists>v. f (JStr (pathname (req_url r))) = Inr v \<and> f v = Inr (js_read res ''pathname''))) \<and>
     (\<forall>key. key \<notin> set RESULT_KEYS \<longrightarrow> js_prop res key = None)"
proof -
  from requestSchema_steps [OF assms] obtain out where
    pre: "request_preprocess usp cfg val s = (Inr out, s')"
    and obj: "z_object (result_fields cfg) out = Inr res"
    by blast
  note fld = z_object_field [OF obj result_fields_distinct]
  from request_preprocess_fields [OF pre] obtain r where
    val: "val = IsRequest r"
    and p_url: "js_read out ''url'' = JURL (req_url r)"
    and p_sp: "case cfg_searchParams cfg of
        None \<Rightarrow> js_read out ''searchParamsObject'' = JUndefined
      | Some sp \<Rightarrow>
          processSearchParams usp sp (req_url r) = Inr (js_read out ''searchParamsObject'')"
    and p_body: "case cfg_body cfg of
        None \<Rightarrow> js_read out ''body'' = JUndefined \<and> js_read out ''bodyObject'' = JUndefined \<and> s' = s
      | Some bv \<Rightarrow>
          js_read out ''body'' = (case body_ref s of Some st \<Rightarrow> JStream st | None \<Rightarrow> JNull) \<and>
          (\<exists>p. bv (IsRequest r) s = (Inr p, s') \<and> prop_body p = Inr (js_read out ''bodyObject''))"
    and p_hd: "case cfg_headers cfg of
        None \<Rightarrow> js_read out ''headers'' = JUndefined \<and> js_read out ''headersObj'' = JUndefined
      | Some hs \<Rightarrow>
          js_read out ''headers'' = JHeaders (req_headers r) \<and>
          processHeaders hs (req_headers r) = Inr (js_read out ''headersObj'')"
    and p_method: "simple_field (cfg_method cfg) (req_method r) = Inr (js_read out ''method'')"
    and p_mode: "simple_field (cfg_mode cfg) (req_mode r) = Inr (js_read out ''mode'')"
    and p_protocol: "simple_field (cfg_protocol cfg) (js_replace (protocol (req_url r)) '':'' []) =
       Inr (js_read out ''protocol'')"
    and p_hostname: "simple_field (cfg_hostname cfg) (hostname (req_url r)) =
       Inr (js_read out ''hostname'')"
    and p_pathname: "simple_field (cfg_pathname cfg) (pathname (req_url r)) =
       Inr (js_read out ''pathname'')"
    by blast
  have c_url: "js_read res ''url'' = JURL (req_url r)"
    using instance_schemas(1) [OF fld [OF result_fields_member(1)]] p_url by simp
  have c_sp: "case cfg_searchParams cfg of
        None \<Rightarrow> js_read res ''searchParamsObject'' = JUndefined
      | Some sp \<Rightarrow>
          (\<exists>b v. extractBaseSchema sp = Some b \<and>
                 processSearchParams usp sp (req_url r) = Inr v \<and>
                 base_parseAsync b v = Inr (js_read res ''searchParamsObject''))"
  proof (cases "cfg_searchParams cfg")
    case None
    with fld [OF result_fields_member(2)] p_sp show ?thesis
      by (simp add: z_unknown_optional_def)
  next
    case (Some sp)
    with p_sp have run: "processSearchParams usp sp (req_url r) = Inr (js_read out ''searchParamsObject'')"
      by simp
    then obtain b where b: "extractBaseSchema sp = Some b"
      by (cases "extractBaseSchema sp") (simp_all add: processSearchParams_def Let_def)
    with fld [OF result_fields_member(2)] Some
    have "base_parseAsync b (js_read out ''searchParamsObject'') = Inr (js_read res ''searchParamsObject'')"
      by simp
    with Some b run show ?thesis by auto
  qed
  have c_body: "case cfg_body cfg of
        None \<Rightarrow> js_read res ''body'' = JUndefined \<and> js_read res ''bodyObject'' = JUndefined \<and>
                s' = s
      | Some bv \<Rightarrow>
          js_read res ''body'' = (case body_ref s of Some st \<Rightarrow> JStream st | None \<Rightarrow> JNull) \<and>
          (\<exists>p. bv (IsRequest r) s = (Inr p, s') \<and>
               prop_body p = Inr (js_read res ''bodyObject''))"
  proof (cases "cfg_body cfg")
    case None
    with fld [OF result_fields_member(3)] fld [OF result_fields_member(4)] p_body show ?thesis
      by (simp add: z_unknown_optional_def)
  next
    case (Some bv)
    with fld [OF result_fields_member(3)]
    have "js_read res ''body'' = js_read out ''body''"
      using instance_schemas(3) by simp
    moreover from Some fld [OF result_fields_member(4)]
    have "js_read res ''bodyObject'' = js_read out ''bodyObject''"
      by (simp add: z_unknown_def)
    ultimately show ?thesis using Some p_body by simp
  qed
  have c_hd: "case cfg_headers cfg of
        None \<Rightarrow> js_read res ''headers'' = JUndefined \<and> js_read res ''headersObj'' = JUndefined
      | Some hs \<Rightarrow>
          js_read res ''headers'' = JHeaders (req_headers r) \<and>
          (\<exists>b v. extractBaseSchema hs = Some b \<and>
                 processHeaders hs (req_headers r) = Inr v \<and>
                 base_parseAsync b v = Inr (js_read res ''headersObj''))"
  proof (cases "cfg_headers cfg")
    case None
    with fld [OF result_fields_member(5)] fld [OF result_fields_member(6)] p_hd show ?thesis
      by (simp add: z_unknown_optional_def)
  next
    case (Some hs)
    with p_hd have h1: "js_read out ''headers'' = JHeaders (req_headers r)"
      and run: "processHeaders hs (req_headers r) = Inr (js_read out ''headersObj'')"
      by simp_all
    from run obtain b where b: "extractBaseSchema hs = Some b"
      by (cases "extractBaseSchema hs") (simp_all add: processHeaders_def)
    from Some fld [OF result_fields_member(5)] h1
    have "js_read res ''headers'' = JHeaders (req_headers r)"
      using instance_schemas(2) by simp
    moreover from fld [OF result_fields_member(6)] Some b
    have "base_parseAsync b (js_read out ''headersObj'') = Inr (js_read res ''headersObj'')"
      by simp
    ultimately show ?thesis using Some b run by auto
  qed
  note c_method = simple_facet_twice [OF p_method fld [OF result_fields_member(7)]]
  note c_mode = simple_facet_twice [OF p_mode fld [OF result_fields_member(8)]]
  note c_protocol = simple_facet_twice [OF p_protocol fld [OF result_fields_member(9)]]
  note c_hostname = simple_facet_twice [OF p_hostname fld [OF result_fields_member(10)]]
  note c_pathname = simple_facet_twice [OF p_pathname fld [OF result_fields_member(11)]]
  have c_other: "\<forall>key. key \<notin> set RESULT_KEYS \<longrightarrow> js_prop res key = None"
  proof (intro allI impI)
    fix key
    assume "key \<notin> set RESULT_KEYS"
    then have "key \<notin> fst ` set (result_fields cfg)"
      using result_fields_keys [of cfg] by (metis set_map)
    from z_object_other [OF obj this] show "js_prop res key = None" .
  qed
  show ?thesis
    apply (rule exI [of _ r])
    apply (intro conjI)
    apply (rule val)
    apply (rule c_url)
    apply (rule c_sp)
    apply (rule c_body)
    apply (rule c_hd)
    apply (rule c_method)
    apply (rule c_mode)
    apply (rule c_protocol)
    apply (rule c_hostname)
    apply (rule c_pathname)
    apply (rule c_other)
    done
qed

theorem result_has_exactly_the_supplied_facets_witness:
  "requestSchema usp_tag some_facets
     (IsRequest (request_with (Some ''application/json''))) with_body =
     (Inr some_facets_result, \<lparr>body_ref = Some 7, calls = [CallJson]\<rparr>) \<and>
   js_read some_facets_result ''url'' = JURL ex_url \<and>
   js_read some_facets_result ''searchParamsObject'' = JObj [(''tag'', JStr ''x'')] \<and>
   js_read some_facets_result ''body'' = JStream 7 \<and>
   js_read some_facets_result ''bodyObject'' = JArr [JStr ''json'', JNum 1] \<and>
   js_read some_facets_result ''protocol'' = JStr ''https'' \<and>
   js_read some_facets_result ''headers'' = JUndefined \<and>
   js_read some_facets_result ''headersObj'' = JUndefined \<and>
   js_read some_facets_result ''method'' = JUndefined \<and>
   js_read some_facets_result ''mode'' = JUndefined \<and>
   tagging ''host'' (JStr ''example.com'') = Inr (JArr [JStr ''host'', JStr ''example.com'']) \<and>
   js_read some_facets_result ''hostname'' =
     JArr [JStr ''host'', JArr [JStr ''host'', JStr ''example.com'']] \<and>
   js_read some_facets_result ''pathname'' = JUndefined \<and>
   js_prop some_facets_result ''cookies'' = None"
  using result_has_exactly_the_supplied_facets
    [of usp_tag some_facets "IsRequest (request_with (Some ''application/json''))" with_body
        some_facets_result "\<lparr>body_ref = Some 7, calls = [CallJson]\<rparr>"]
  by (simp add: request_defs body_defs extract_defs some_facets_def no_facets_def tag_schema_def
      usp_tag_def json_only_def tagging_def request_with_def with_body_def ex_url_def
      literal_parse_def some_facets_result_def js_prop_def js_replace_def RESULT_KEYS_def)

subsection \<open>The body stream\<close>

text \<open>
  C4, at a request with a JSON body and a validator built with a body sub-validator for
  JSON and the method \<open>POST\<close>. Before the validation the request answers the stream
  \<open>7\<close> for its body and nothing has read it. The validation succeeds; \<open>processBody\<close>
  took the reference before it ran the sub-validator, and the field \<^verbatim>\<open>body\<close> of the
  result is that reference. But a reference is all that was taken: the sub-validator
  called \<^verbatim>\<open>json()\<close> on the request, which reads the one stream the request has, and
  after the validation the request still answers the same stream \<open>7\<close> for its body. So
  the stream in the result is the stream that has been read, not one that is still
  unread.
\<close>

theorem result_body_is_the_stream_that_was_read:
  "body_ref with_body = Some 7 \<and>
   \<not> stream_read with_body \<and>
   cfg_body body_and_method = Some (bodySchema usp_tag json_only) \<and>
   requestSchema usp_tag body_and_method
     (IsRequest (request_with (Some ''application/json''))) with_body =
     (Inr json_post_result, \<lparr>body_ref = Some 7, calls = [CallJson]\<rparr>) \<and>
   js_read json_post_result ''body'' = JStream 7 \<and>
   js_read json_post_result ''bodyObject'' = JArr [JStr ''json'', JNum 1] \<and>
   body_ref \<lparr>body_ref = Some 7, calls = [CallJson]\<rparr> = Some 7 \<and>
   stream_read \<lparr>body_ref = Some 7, calls = [CallJson]\<rparr>"
  by (simp add: request_defs body_defs body_and_method_def no_facets_def json_only_def
      tagging_def request_with_def with_body_def ex_url_def literal_parse_def
      json_post_result_def stream_read_def js_prop_def)

end
